theory Spec2Isabelle
  imports Complex_Main "HOL-Library.AList"
begin

section \<open>Python values used by the program\<close>

text \<open>
  Python's \<^verbatim>\<open>str(n)\<close> for a non-negative integer, \<^verbatim>\<open>str.zfill\<close>,
  the substring test \<^verbatim>\<open>a in b\<close>, \<^verbatim>\<open>str.endswith\<close>,
  \<^verbatim>\<open>str.strip\<close>, \<^verbatim>\<open>str.isnumeric\<close> and \<^verbatim>\<open>str.isalpha\<close>, on strings
  as lists of characters with code points below 256. The character classes are Python's
  on that range.
\<close>

definition digit_char :: "nat \<Rightarrow> char" where
  "digit_char d = ''0123456789'' ! d"

fun str_nat :: "nat \<Rightarrow> string" where
  "str_nat n = (if n < 10 then [digit_char n] else str_nat (n div 10) @ [digit_char (n mod 10)])"

declare str_nat.simps [simp del]

definition str_int :: "int \<Rightarrow> string" where
  "str_int i = (if i < 0 then CHR ''-'' # str_nat (nat (- i)) else str_nat (nat i))"

definition zfill :: "nat \<Rightarrow> string \<Rightarrow> string" where
  "zfill w s = replicate (w - length s) CHR ''0'' @ s"

fun startswith :: "string \<Rightarrow> string \<Rightarrow> bool" where
  "startswith ys [] = True"
| "startswith [] (x # xs) = False"
| "startswith (y # ys) (x # xs) = (x = y \<and> startswith ys xs)"

definition endswith :: "string \<Rightarrow> string \<Rightarrow> bool" where
  "endswith ys xs = startswith (rev ys) (rev xs)"

text \<open>\<open>py_in a b\<close> is Python's \<^verbatim>\<open>a in b\<close> on strings.\<close>

fun py_in :: "string \<Rightarrow> string \<Rightarrow> bool" where
  "py_in a [] = (a = [])"
| "py_in a (y # ys) = (startswith (y # ys) a \<or> py_in a ys)"

text \<open>White space as \<^verbatim>\<open>str.strip\<close> and \<^verbatim>\<open>str.isspace\<close> see it.\<close>

definition is_space :: "char \<Rightarrow> bool" where
  "is_space c =
     (c \<in> set [CHR '' '', CHR 0x09, CHR 0x0A, CHR 0x0B, CHR 0x0C, CHR 0x0D,
                CHR 0x1C, CHR 0x1D, CHR 0x1E, CHR 0x1F, CHR 0x85, CHR 0xA0])"

definition strip :: "string \<Rightarrow> string" where
  "strip s = rev (dropWhile is_space (rev (dropWhile is_space s)))"

definition is_digit :: "char \<Rightarrow> bool" where
  "is_digit c = (c \<in> set ''0123456789'')"

text \<open>
  \<^verbatim>\<open>str.isnumeric\<close>: the decimal digits, the superscripts 1, 2 and 3 and the three
  vulgar fractions of the range.
\<close>

definition is_numeric :: "char \<Rightarrow> bool" where
  "is_numeric c =
     (is_digit c \<or> c \<in> set [CHR 0xB2, CHR 0xB3, CHR 0xB9, CHR 0xBC, CHR 0xBD, CHR 0xBE])"

definition isnumeric :: "string \<Rightarrow> bool" where
  "isnumeric s = (s \<noteq> [] \<and> list_all is_numeric s)"

text \<open>
  \<^verbatim>\<open>str.isalpha\<close>: the letters of the range, which are A to Z, a to z, the two
  ordinal indicators, the micro sign and the accented letters from 0xC0 on, without the
  multiplication and the division sign.
\<close>

definition is_alpha :: "char \<Rightarrow> bool" where
  "is_alpha c =
     (let n = (of_char c :: nat)
      in (65 \<le> n \<and> n \<le> 90) \<or> (97 \<le> n \<and> n \<le> 122)
         \<or> n = 170 \<or> n = 181 \<or> n = 186
         \<or> (192 \<le> n \<and> n \<le> 214) \<or> (216 \<le> n \<and> n \<le> 246) \<or> 248 \<le> n)"

definition isalpha :: "string \<Rightarrow> bool" where
  "isalpha s = (s \<noteq> [] \<and> list_all is_alpha s)"

text \<open>A text between apostrophes, as the messages of the program quote names.\<close>

definition quoted :: "string \<Rightarrow> string" where
  "quoted s = [CHR 0x27] @ s @ [CHR 0x27]"

section \<open>Exceptions and the log\<close>

datatype exn =
    TransactionClosedError string
  | UnboundLocalError string
  | AuthorizationMissingError string
  | AssertionError string
  | ValueError string
  | RuntimeError string
  | FileNotFoundError string
  | IndexError string
  | AttributeError string
  | ComError string
  | TypeError string

fun str_exn :: "exn \<Rightarrow> string" where
  "str_exn (TransactionClosedError m) = m"
| "str_exn (UnboundLocalError m) = m"
| "str_exn (AuthorizationMissingError m) = m"
| "str_exn (AssertionError m) = m"
| "str_exn (ValueError m) = m"
| "str_exn (RuntimeError m) = m"
| "str_exn (FileNotFoundError m) = m"
| "str_exn (IndexError m) = m"
| "str_exn (AttributeError m) = m"
| "str_exn (ComError m) = m"
| "str_exn (TypeError m) = m"

datatype level = INFO | WARNING | ERROR | CRITICAL

type_synonym log = "(level \<times> string) list"

section \<open>Batch persistence log (controller.py)\<close>

text \<open>
  A batch file holds the JSON text of a dictionary with the keys \<^verbatim>\<open>country\<close>,
  \<^verbatim>\<open>company_code\<close> and \<^verbatim>\<open>credit_memos\<close>; the model keeps the value that
  \<^verbatim>\<open>json.loads\<close> reads back from what \<^verbatim>\<open>json.dump\<close> wrote. The data directory
  is the list of its entries (file name, content), in directory order; a name occurs once.
\<close>

record batch =
  country :: string
  company_code :: string
  credit_memos :: "int list"

type_synonym data_dir = "(string \<times> batch) list"

definition isfile :: "data_dir \<Rightarrow> string \<Rightarrow> bool" where
  "isfile d p = (map_of d p \<noteq> None)"

text \<open>The path of a batch file, relative to the data directory.\<close>

definition compile_batch_path :: "nat \<Rightarrow> string" where
  "compile_batch_path batch_id = ''batch_'' @ zfill 3 (str_nat batch_id) @ ''.json''"

text \<open>The loop of \<^verbatim>\<open>_create_batch_file\<close>: the first index from \<open>n\<close> on with no file.\<close>

function first_unused :: "data_dir \<Rightarrow> nat \<Rightarrow> nat" where
  "first_unused d n =
     (if isfile d (compile_batch_path n) then first_unused d (n + 1) else n)"
  by pat_completeness auto

definition create_batch_file :: "string \<Rightarrow> string \<Rightarrow> data_dir \<Rightarrow> nat \<times> data_dir" where
  "create_batch_file ctry cocd d =
     (let n = first_unused d 1;
          file_path = compile_batch_path n;
          new_batch = \<lparr>country = ctry, company_code = cocd, credit_memos = []\<rparr>
      in (n, AList.update file_path new_batch d))"

definition update_batch_data :: "nat \<Rightarrow> int \<Rightarrow> data_dir \<Rightarrow> exn + data_dir" where
  "update_batch_data batch_id memo d =
     (let file_path = compile_batch_path batch_id in
      case map_of d file_path of
        None \<Rightarrow> Inl (FileNotFoundError file_path)
      | Some content \<Rightarrow>
          Inr (AList.update file_path
                 (content\<lparr>credit_memos := credit_memos content @ [memo]\<rparr>) d))"

text \<open>
  \<^verbatim>\<open>glob("*.json")\<close> lists the names that end in \<^verbatim>\<open>.json\<close> and do not start with a
  dot; \<^verbatim>\<open>splitext\<close> removes the extension.
\<close>

definition glob_json :: "string \<Rightarrow> bool" where
  "glob_json p = (endswith p ''.json'' \<and> \<not> startswith p ''.'')"

definition splitext_root :: "string \<Rightarrow> string" where
  "splitext_root p = take (length p - 5) p"

definition load_data_batches :: "data_dir \<Rightarrow> (string \<times> batch) list" where
  "load_data_batches d =
     fold (\<lambda>(file_path, content) data. AList.update (splitext_root file_path) content data)
       (filter (\<lambda>(file_path, content). glob_json file_path) d) []"

definition remove_data_batch :: "string \<Rightarrow> data_dir \<times> log \<Rightarrow> data_dir \<times> log" where
  "remove_data_batch name = (\<lambda>(d, lg).
     (let file_path = name @ ''.json'';
          lg1 = lg @ [(INFO, ''Removing data batch file ...'')]
      in if isfile d file_path
         then (AList.delete file_path d, lg1 @ [(ERROR, ''Data batch file removed.'')])
         else (d, lg1 @ [(ERROR, ''[Errno 2] No such file or directory: '' @ file_path)])))"

text \<open>Successive appends to one batch file, as the orchestrator's loop makes them.\<close>

fun update_batch_all :: "nat \<Rightarrow> int list \<Rightarrow> data_dir \<Rightarrow> exn + data_dir" where
  "update_batch_all batch_id [] d = Inr d"
| "update_batch_all batch_id (memo # memos) d =
     (case update_batch_data batch_id memo d of
        Inl e \<Rightarrow> Inl e
      | Inr d' \<Rightarrow> update_batch_all batch_id memos d')"

text \<open>The index a batch path encodes: it inverts \<open>compile_batch_path\<close>.\<close>

definition nat_of_digits :: "string \<Rightarrow> nat" where
  "nat_of_digits s = foldl (\<lambda>a c. 10 * a + (of_char c - 48)) 0 s"

definition batch_id_of :: "string \<Rightarrow> nat" where
  "batch_id_of p = nat_of_digits (take (length p - 11) (drop 6 p))"

section \<open>The external system\<close>

text \<open>
  The SAP GUI is driven through its scripting interface. Its state is the type \<open>'g\<close>;
  the record below lists the calls the program makes on it: a read returns what the GUI
  shows in a state, an action returns the next state. The theorems hold for every such
  system. A call on a GUI object is taken to return: the only failures of the interface
  in the model are the ones the program itself handles (a missing next node in the
  document tree, the attachment dialog that does not open). The record also carries the Python built-ins \<^verbatim>\<open>float\<close> and \<^verbatim>\<open>int\<close>
  (\<open>None\<close> when they raise ValueError), the formatting of a float in an f-string, and
  \<^verbatim>\<open>os.path.isfile\<close> for the attachment.
\<close>

type_synonym session = nat

datatype gui_obj = GuiObj session string

record gui_label =
  label_id :: string
  color_index :: int
  color_intensified :: bool
  label_text :: string

record 'g env =
  gui_send_vkey :: "nat \<Rightarrow> 'g \<Rightarrow> 'g"
  gui_active_wnd_type :: "'g \<Rightarrow> string"
  gui_active_wnd_text :: "'g \<Rightarrow> string"
  gui_dialog_children :: "'g \<Rightarrow> string list"
  gui_wnd_children :: "'g \<Rightarrow> (string \<times> string) list list"
  gui_press_child :: "nat \<Rightarrow> nat \<Rightarrow> 'g \<Rightarrow> 'g"
  gui_set_text :: "string \<Rightarrow> string \<Rightarrow> 'g \<Rightarrow> 'g"
  gui_get_text :: "string \<Rightarrow> 'g \<Rightarrow> string"
  gui_press :: "string \<Rightarrow> 'g \<Rightarrow> 'g"
  gui_select :: "string \<Rightarrow> 'g \<Rightarrow> 'g"
  gui_sbar_text :: "'g \<Rightarrow> string"
  gui_sbar_msg_type :: "'g \<Rightarrow> string"
  gui_start_transaction :: "string \<Rightarrow> 'g \<Rightarrow> 'g"
  gui_end_transaction :: "'g \<Rightarrow> 'g"
  gui_scroll_to_max :: "'g \<Rightarrow> 'g"
  gui_labels :: "'g \<Rightarrow> gui_label list"
  gui_tree_top_node :: "'g \<Rightarrow> string"
  gui_tree_item_text :: "string \<Rightarrow> 'g \<Rightarrow> string"
  gui_tree_sub_nodes :: "string \<Rightarrow> 'g \<Rightarrow> string list option"
  gui_tree_next_node :: "string \<Rightarrow> 'g \<Rightarrow> string option"
  gui_tool_bar_children :: "'g \<Rightarrow> string list"
  gui_press_tool_bar_child :: "nat \<Rightarrow> 'g \<Rightarrow> 'g"
  gui_grid_row_count :: "'g \<Rightarrow> nat"
  gui_grid_cell_value :: "nat \<Rightarrow> string \<Rightarrow> 'g \<Rightarrow> string"
  gui_grid_select_cell :: "nat \<Rightarrow> string \<Rightarrow> 'g \<Rightarrow> 'g"
  gui_grid_double_click :: "'g \<Rightarrow> 'g"
  gui_table_type :: "'g \<Rightarrow> string"
  gui_table_columns :: "'g \<Rightarrow> string list"
  gui_table_cell_text :: "nat \<Rightarrow> nat \<Rightarrow> 'g \<Rightarrow> string"
  gui_table_cell_selected :: "nat \<Rightarrow> nat \<Rightarrow> 'g \<Rightarrow> bool"
  gui_table_visible_row_count :: "'g \<Rightarrow> nat"
  gui_dialog_child_text :: "nat \<Rightarrow> 'g \<Rightarrow> string"
  gui_exists :: "string \<Rightarrow> 'g \<Rightarrow> bool"
  gui_tab_names :: "'g \<Rightarrow> string list"
  gui_select_tab :: "nat \<Rightarrow> 'g \<Rightarrow> 'g"
  gui_set_selected :: "string \<Rightarrow> bool \<Rightarrow> 'g \<Rightarrow> 'g"
  gui_partner_rows :: "'g \<Rightarrow> string list"
  gui_set_partner :: "nat \<Rightarrow> string \<Rightarrow> string \<Rightarrow> 'g \<Rightarrow> 'g"
  gui_attach_dialog :: "string \<Rightarrow> string \<Rightarrow> 'g \<Rightarrow> bool \<times> 'g"
  gui_sap_event :: "string \<Rightarrow> 'g \<Rightarrow> 'g"
  gui_close_connection :: "'g \<Rightarrow> 'g"
  os_isfile :: "string \<Rightarrow> bool"
  py_float :: "string \<Rightarrow> real option"
  py_int :: "string \<Rightarrow> int option"
  py_str_float :: "real \<Rightarrow> string"

section \<open>The settlement session (vbo2.py)\<close>

subsection \<open>Keys and dialogs\<close>

definition press_cancel :: "'g env \<Rightarrow> 'g \<Rightarrow> 'g" where
  "press_cancel E = gui_send_vkey E 12"

definition press_save :: "'g env \<Rightarrow> 'g \<Rightarrow> 'g" where
  "press_save E = gui_send_vkey E 11"

definition press_back :: "'g env \<Rightarrow> 'g \<Rightarrow> 'g" where
  "press_back E = gui_send_vkey E 3"

definition press_enter :: "'g env \<Rightarrow> 'g \<Rightarrow> 'g" where
  "press_enter E = gui_send_vkey E 0"

fun join_space :: "string list \<Rightarrow> string" where
  "join_space [] = []"
| "join_space [x] = x"
| "join_space (x # y # ys) = x @ '' '' @ join_space (y # ys)"

text \<open>The text \<^verbatim>\<open>_get_dialog_text\<close> builds from the children of the dialog's container.\<close>

definition dialog_text :: "'g env \<Rightarrow> 'g \<Rightarrow> string" where
  "dialog_text E g = strip (join_space (map strip (gui_dialog_children E g))) @ ''.''"

definition get_dialog_text :: "'g env \<Rightarrow> 'g \<Rightarrow> exn + string" where
  "get_dialog_text E g =
     (if gui_active_wnd_type E g = ''GuiModalWindow'' then Inr (dialog_text E g)
      else Inl (AssertionError []))"

definition is_popup_dialog :: "'g env \<Rightarrow> string option \<Rightarrow> 'g \<Rightarrow> bool" where
  "is_popup_dialog E msg g =
     (if gui_active_wnd_type E g = ''GuiModalWindow''
      then (case msg of None \<Rightarrow> True | Some m \<Rightarrow> py_in m (dialog_text E g))
      else False)"

text \<open>The first button with the caption, searched child by child as the two loops do.\<close>

fun find_caption :: "string \<Rightarrow> (string \<times> string) list \<Rightarrow> nat \<Rightarrow> nat option" where
  "find_caption cap [] j = None"
| "find_caption cap ((ty, txt) # rest) j =
     (if ty = ''GuiButton'' \<and> cap = strip txt then Some j else find_caption cap rest (j + 1))"

fun find_button :: "string \<Rightarrow> (string \<times> string) list list \<Rightarrow> nat \<Rightarrow> (nat \<times> nat) option" where
  "find_button cap [] i = None"
| "find_button cap (child # rest) i =
     (case find_caption cap child 0 of
        Some j \<Rightarrow> Some (i, j)
      | None \<Rightarrow> find_button cap rest (i + 1))"

definition close_popup_dialog :: "'g env \<Rightarrow> bool \<Rightarrow> 'g \<Rightarrow> 'g" where
  "close_popup_dialog E confirm g =
     (if gui_active_wnd_text E g = ''Information''
      then (if confirm then press_enter E g else press_cancel E g)
      else (case find_button (if confirm then ''Yes'' else ''No'') (gui_wnd_children E g) 0 of
              Some (i, j) \<Rightarrow> gui_press_child E i j g
            | None \<Rightarrow> g))"

subsection \<open>Fields, buttons and amounts\<close>

definition set_agreement_number :: "'g env \<Rightarrow> string \<Rightarrow> 'g \<Rightarrow> 'g" where
  "set_agreement_number E val = gui_set_text E ''RV13A-KNUMA_BO'' val"

definition clear_input_field :: "'g env \<Rightarrow> 'g \<Rightarrow> 'g" where
  "clear_input_field E = set_agreement_number E []"

definition press_settle :: "'g env \<Rightarrow> 'g \<Rightarrow> 'g" where
  "press_settle E = gui_press E ''btn[19]''"

definition display_sales_volume :: "'g env \<Rightarrow> 'g \<Rightarrow> 'g" where
  "display_sales_volume E = gui_press E ''btn[17]''"

definition strip_chars :: "char \<Rightarrow> string \<Rightarrow> string" where
  "strip_chars c s = rev (dropWhile (\<lambda>x. x = c) (rev (dropWhile (\<lambda>x. x = c) s)))"

definition convert_amount :: "'g env \<Rightarrow> string \<Rightarrow> exn + real" where
  "convert_amount E num =
     (let stripped = strip num;
          neg = endswith num ''-'';
          stripped = (if neg then strip_chars CHR ''-'' stripped else stripped);
          coeff = (if neg then - 1 else 1);
          repl_a = filter (\<lambda>c. c \<noteq> CHR ''.'') stripped;
          repl_b = map (\<lambda>c. if c = CHR '','' then CHR ''.'' else c) repl_a
      in case py_float E repl_b of
           None \<Rightarrow> Inl (ValueError (''could not convert string to float: '' @ repl_b))
         | Some x \<Rightarrow> Inr (x * coeff))"

definition scroll_to_bottom :: "'g env \<Rightarrow> 'g \<Rightarrow> 'g" where
  "scroll_to_bottom E = gui_scroll_to_max E"

fun index_of :: "'a \<Rightarrow> 'a list \<Rightarrow> nat \<Rightarrow> nat option" where
  "index_of x [] i = None"
| "index_of x (y # ys) i = (if y = x then Some i else index_of x ys (i + 1))"

definition get_column_index :: "'g env \<Rightarrow> string \<Rightarrow> 'g \<Rightarrow> exn + nat" where
  "get_column_index E name g =
     (if gui_table_type E g \<noteq> ''GuiTableControl'' then Inl (AssertionError [])
      else case index_of name (gui_table_columns E g) 0 of
             Some idx \<Rightarrow> Inr idx
           | None \<Rightarrow> Inl (AssertionError ''Column 'Scales' not found in the used layout!''))"

definition exists_unchecked :: "'g env \<Rightarrow> nat \<Rightarrow> 'g \<Rightarrow> bool" where
  "exists_unchecked E col_idx g =
     (if gui_table_cell_text E 0 0 g = [] then False
      else list_ex (\<lambda>row_idx. \<not> gui_table_cell_selected E row_idx col_idx g)
             [0 ..< gui_table_visible_row_count E g])"

subsection \<open>Accounting documents\<close>

definition last_word :: "string \<Rightarrow> string" where
  "last_word s = rev (takeWhile (\<lambda>c. c \<noteq> CHR '' '') (rev s))"

text \<open>
  The recursive walk over the document tree. It follows the next node, or the first
  sub-node where the GUI has no next node (\<open>gui_tree_next_node\<close> is \<open>None\<close>), and
  need not end on every tree: not returning is the value \<open>None\<close>.
\<close>

partial_function (option) get_accounting_document ::
  "'g env \<Rightarrow> string \<Rightarrow> string \<Rightarrow> 'g \<Rightarrow> (exn + int option) option" where
  "get_accounting_document E node keyword g =
     (let text = gui_tree_item_text E node g in
      if py_in keyword text then
        (case py_int E (last_word text) of
           None \<Rightarrow> Some (Inl (ValueError (''invalid literal for int() with base 10: ''
                                   @ last_word text)))
         | Some num \<Rightarrow> Some (Inr (Some num)))
      else
        (case gui_tree_sub_nodes E node g of
           None \<Rightarrow> Some (Inr None)
         | Some subnodes \<Rightarrow>
             (case gui_tree_next_node E node g of
                None \<Rightarrow>
                  (case subnodes of
                     [] \<Rightarrow> Some (Inl (ComError ''GetSubNodesCol: no element 0''))
                   | subnode # rest \<Rightarrow> get_accounting_document E subnode keyword g)
              | Some next_node \<Rightarrow> get_accounting_document E next_node keyword g)))"

declare get_accounting_document.simps [code]

text \<open>The polling loop of \<^verbatim>\<open>_reopen_agreement\<close>; the two-second sleep has no model.\<close>

partial_function (option) reopen_loop :: "'g env \<Rightarrow> 'g \<Rightarrow> 'g option" where
  "reopen_loop E g =
     (if py_in ''being processed'' (gui_sbar_text E g) then reopen_loop E (press_enter E g)
      else Some g)"

declare reopen_loop.simps [code]

definition reopen_agreement :: "'g env \<Rightarrow> 'g \<Rightarrow> 'g option" where
  "reopen_agreement E g =
     (case reopen_loop E (press_enter E g) of
        None \<Rightarrow> None
      | Some g1 \<Rightarrow>
          Some (if is_popup_dialog E (Some ''is marked for deletion'') g1
                then close_popup_dialog E True g1 else g1))"

partial_function (option) cancel_popups :: "'g env \<Rightarrow> 'g \<Rightarrow> 'g option" where
  "cancel_popups E g =
     (if is_popup_dialog E None g then cancel_popups E (press_cancel E g) else Some g)"

declare cancel_popups.simps [code]

definition get_document_number ::
  "'g env \<Rightarrow> string \<Rightarrow> 'g \<Rightarrow> ((exn + int option \<times> string) \<times> 'g) option" where
  "get_document_number E doc_type g =
     (let g1 = gui_select E ''menu[3]/menu[3]'' g in
      if py_in ''No rebate credit memos exist'' (gui_sbar_text E g1)
      then Some (Inr (None, gui_sbar_text E g1), g1)
      else
        (let g2 = gui_press E ''wnd[1]/tbar[0]/btn[0]'' g1 in
         if doc_type \<noteq> ''request'' \<and> doc_type \<noteq> ''memo''
         then Some (Inl (UnboundLocalError
                 ''local variable 'kwd' referenced before assignment''), g2)
         else
           (let kwd = (if doc_type = ''request'' then ''Credit memo requests''
                       else ''Rebate credit memo '')
            in case get_accounting_document E (gui_tree_top_node E g2) kwd g2 of
                 None \<Rightarrow> None
               | Some (Inl e) \<Rightarrow> Some (Inl e, g2)
               | Some (Inr num) \<Rightarrow>
                   (case cancel_popups E g2 of
                      None \<Rightarrow> None
                    | Some g3 \<Rightarrow> Some (Inr (num, []), g3)))))"

definition go_to_start_window :: "'g env \<Rightarrow> 'g \<Rightarrow> 'g" where
  "go_to_start_window E g = gui_start_transaction E ''VBO2'' (press_cancel E g)"

subsection \<open>Finding an agreement\<close>

text \<open>
  \<^verbatim>\<open>_find\<close> returns a pair (message type, message) from the status bar, and on its two
  early exits the bare string that \<^verbatim>\<open>_get_dialog_text\<close> returns.
\<close>

datatype find_ret = FPair string string | FStr string

definition find_messages :: "(string \<times> string list) list" where
  "find_messages =
     [(''W'', [''Only display is possible'']),
      (''E'', [''does not exist'', ''cannot be processed'', ''already being processed''])]"

fun match_status :: "(string \<times> string list) list \<Rightarrow> string \<Rightarrow> string option" where
  "match_status [] status_msg = None"
| "match_status ((msg_type, kwds) # rest) status_msg =
     (if list_ex (\<lambda>kwd. py_in kwd status_msg) kwds then Some msg_type
      else match_status rest status_msg)"

definition find_status :: "'g env \<Rightarrow> 'g \<Rightarrow> find_ret" where
  "find_status E g =
     (let status_msg = gui_sbar_text E g in
      case match_status find_messages status_msg of
        Some msg_type \<Rightarrow> FPair msg_type status_msg
      | None \<Rightarrow> FPair ''I'' ''Agreement found and opened.'')"

definition vbo2_find ::
  "'g env \<Rightarrow> int \<Rightarrow> bool \<Rightarrow> bool \<Rightarrow> 'g \<Rightarrow> (exn + find_ret) \<times> 'g" where
  "vbo2_find E num accept_inactive_accs accept_outdated_vols g =
     (let g1 = press_enter E (set_agreement_number E (str_int num) g) in
      if is_popup_dialog E (Some ''is marked for deletion'') g1 then
        (let g2 = close_popup_dialog E True g1 in
         if \<not> accept_inactive_accs then
           (let g3 = press_cancel E g2 in
            case get_dialog_text E g3 of
              Inl e \<Rightarrow> (Inl e, g3)
            | Inr txt \<Rightarrow> (Inr (FStr txt), g3))
         else (Inr (find_status E g2), g2))
      else if is_popup_dialog E (Some ''is not current'') g1 then
        (let g2 = close_popup_dialog E True g1 in
         if \<not> accept_outdated_vols then
           (let g3 = go_to_start_window E g2 in
            case get_dialog_text E g3 of
              Inl e \<Rightarrow> (Inl e, g3)
            | Inr txt \<Rightarrow> (Inr (FStr txt), g3))
         else (Inr (find_status E g2), g2))
      else (Inr (find_status E g1), g1))"

text \<open>
  The assignment \<^verbatim>\<open>msg_type, msg = _find(...)\<close>: a pair unpacks to its components, a
  string only when it has two characters.
\<close>

definition unpack2 :: "find_ret \<Rightarrow> exn + string \<times> string" where
  "unpack2 r =
     (case r of
        FPair msg_type msg \<Rightarrow> Inr (msg_type, msg)
      | FStr s \<Rightarrow>
          (case s of
             [a, b] \<Rightarrow> Inr ([a], [b])
           | [] \<Rightarrow> Inl (ValueError ''not enough values to unpack (expected 2, got 0)'')
           | [a] \<Rightarrow> Inl (ValueError ''not enough values to unpack (expected 2, got 1)'')
           | _ \<Rightarrow> Inl (ValueError ''too many values to unpack (expected 2)'')))"

subsection \<open>Sales volumes, scales and status\<close>

definition collect_label :: "gui_label \<Rightarrow> (string \<times> string) list \<Rightarrow> (string \<times> string) list" where
  "collect_label lbl vals =
     (if color_index lbl \<noteq> 3 then vals
      else if color_intensified lbl then vals
      else if strip (label_text lbl) = [] then vals
      else if isalpha (label_text lbl) then vals
      else AList.update (label_id lbl) (strip (label_text lbl)) vals)"

definition get_sales_volumes :: "'g env \<Rightarrow> 'g \<Rightarrow> (exn + real \<times> real) \<times> 'g" where
  "get_sales_volumes E g =
     (let g1 = display_sales_volume E g;
          g2 = (if is_popup_dialog E (Some ''is marked for deletion'') g1
                then close_popup_dialog E True g1 else g1);
          g3 = scroll_to_bottom E g2;
          vals = fold collect_label (gui_labels E g3) [];
          g4 = press_cancel E g3
      in case map snd vals of
           [] \<Rightarrow> (Inl (IndexError ''list index out of range''), g4)
         | v # vs \<Rightarrow>
             (case convert_amount E v of
                Inl e \<Rightarrow> (Inl e, g4)
              | Inr total_val \<Rightarrow>
                  (case convert_amount E (last (v # vs)) of
                     Inl e \<Rightarrow> (Inl e, g4)
                   | Inr accruals \<Rightarrow> (Inr (total_val, accruals), g4))))"

definition scales_checked :: "'g env \<Rightarrow> 'g \<Rightarrow> (exn + bool) \<times> 'g" where
  "scales_checked E g =
     (let g1 = (case index_of ''Conditions'' (gui_tool_bar_children E g) 0 of
                  Some i \<Rightarrow> gui_press_tool_bar_child E i g
                | None \<Rightarrow> g);
          condition_key = ''SalOrg/SalOff/CustHier/Usage''
      in case List.find (\<lambda>row_idx. gui_grid_cell_value E row_idx ''GSTXT'' g1 = condition_key)
                [0 ..< gui_grid_row_count E g1] of
           None \<Rightarrow> (Inl (AssertionError ''Condition key not found in the list!''), g1)
         | Some row_idx \<Rightarrow>
             (let g2 = gui_grid_double_click E (gui_grid_select_cell E row_idx ''GSTXT'' g1) in
              if row_idx = gui_grid_row_count E g2
              then (Inl (AssertionError ''Condition key not found in the list!''), g2)
              else
                (case get_column_index E ''RV13A-KOSTKZ'' g2 of
                   Inl e \<Rightarrow> (Inl e, g2)
                 | Inr col_idx \<Rightarrow>
                     (let is_unchecked = exists_unchecked E col_idx g2;
                          g3 = press_back E g2;
                          g4 = (if gui_sbar_msg_type E g3 = ''W'' then press_enter E g3 else g3);
                          g5 = press_cancel E g4
                      in (Inr (\<not> is_unchecked), g5)))))"

definition get_agreement_status :: "'g env \<Rightarrow> 'g \<Rightarrow> string" where
  "get_agreement_status E g = gui_get_text E ''usr/ctxtKONA-BOSTA'' g"

subsection \<open>Settling an agreement\<close>

record result =
  open_value :: "real option"
  open_accruals :: "real option"
  document_number :: "int option"
  document_type :: "string option"
  message :: "string option"
  message_type :: "string option"

definition empty_result :: result where
  "empty_result =
     \<lparr>open_value = None, open_accruals = None, document_number = None,
      document_type = None, message = None, message_type = None\<rparr>"

text \<open>The branch \<^verbatim>\<open>if msg_type != "I"\<close> of \<^verbatim>\<open>settle_agreement\<close>.\<close>

definition settle_not_opened ::
  "'g env \<Rightarrow> string \<Rightarrow> string \<Rightarrow> 'g \<Rightarrow> ((exn + result) \<times> 'g) option" where
  "settle_not_opened E msg_type msg g =
     (let result = empty_result\<lparr>message := Some msg, message_type := Some msg_type\<rparr> in
      if msg_type = ''W'' then
        (case get_document_number E ''memo'' g of
           None \<Rightarrow> None
         | Some (Inl e, g1) \<Rightarrow> Some (Inl e, g1)
         | Some (Inr (num, msg2), g1) \<Rightarrow>
             (case get_sales_volumes E g1 of
                (Inl e, g2) \<Rightarrow> Some (Inl e, g2)
              | (Inr (open_val, open_accr), g2) \<Rightarrow>
                  Some (Inr (result\<lparr>open_value := Some open_val,
                                     open_accruals := Some open_accr,
                                     document_type := Some ''credit_memo'',
                                     document_number := num,
                                     message := Some (msg @ '' '' @ msg2),
                                     message_type := Some msg_type\<rparr>),
                        clear_input_field E (go_to_start_window E g2))))
      else Some (Inr result, clear_input_field E (go_to_start_window E g)))"

text \<open>What follows \<^verbatim>\<open>_press_settle()\<close>: the last part of \<^verbatim>\<open>settle_agreement\<close>.\<close>

definition settle_failed :: "'g env \<Rightarrow> result \<Rightarrow> string \<Rightarrow> 'g \<Rightarrow> ((exn + result) \<times> 'g) option" where
  "settle_failed E result err_msg g =
     (let g1 = (if is_popup_dialog E None g then close_popup_dialog E True g else g)
      in Some (Inr (result\<lparr>message_type := Some ''E'', message := Some err_msg\<rparr>),
               go_to_start_window E g1))"

definition settle_create :: "'g env \<Rightarrow> result \<Rightarrow> 'g \<Rightarrow> ((exn + result) \<times> 'g) option" where
  "settle_create E result0 g =
     (let g1 = press_settle E g;
          result =
            (if gui_sbar_text E g1 = ''Function code cannot be selected''
             then result0\<lparr>message_type := Some ''E'',
                    message := Some ''The 'Create Final Settlement ...' button not found!''\<rparr>
             else result0)
      in if is_popup_dialog E (Some ''A credit memo request was created for settlement'') g1
         then
           (case reopen_agreement E (press_save E (close_popup_dialog E True g1)) of
              None \<Rightarrow> None
            | Some g2 \<Rightarrow>
                (case get_document_number E ''request'' g2 of
                   None \<Rightarrow> None
                 | Some (Inl e, g3) \<Rightarrow> Some (Inl e, g3)
                 | Some (Inr (num, msg), g3) \<Rightarrow>
                     Some (Inr (result\<lparr>document_type := Some ''memo_request'',
                                        document_number := num,
                                        message := Some ''Agreement successfully settled.'',
                                        message_type := Some ''I''\<rparr>),
                           go_to_start_window E (press_cancel E (press_cancel E g3)))))
         else
           (case get_dialog_text E g1 of
              Inl e \<Rightarrow> Some (Inl e, g1)
            | Inr err_msg \<Rightarrow>
                if py_in ''see next warning message'' err_msg then
                  (let g2 = press_enter E g1 in
                   case get_dialog_text E g2 of
                     Inl e \<Rightarrow> Some (Inl e, g2)
                   | Inr err_msg2 \<Rightarrow> settle_failed E result err_msg2 g2)
                else settle_failed E result err_msg g1))"

text \<open>The line \<^verbatim>\<open>thresh = max(0.01, thresh)\<close>.\<close>

definition cap_threshold :: "real \<Rightarrow> real" where
  "cap_threshold thresh = max (1 / 100) thresh"

text \<open>
  The part of \<^verbatim>\<open>settle_agreement\<close> after the agreement has been opened: sales volumes,
  the status gate, the value gate and the threshold gate. \<^verbatim>\<open>_scales_checked()\<close> is
  called only when the accruals reach the threshold, as the \<^verbatim>\<open>and\<close> of the source does.
\<close>

definition settle_opened :: "'g env \<Rightarrow> real \<Rightarrow> 'g \<Rightarrow> ((exn + result) \<times> 'g) option" where
  "settle_opened E thresh0 g =
     (case get_sales_volumes E g of
        (Inl e, g1) \<Rightarrow> Some (Inl e, g1)
      | (Inr (open_val, open_accr), g1) \<Rightarrow>
          (let result = empty_result\<lparr>open_value := Some open_val,
                                      open_accruals := Some open_accr\<rparr>;
               status = get_agreement_status E g1
           in if status = ''C'' \<or> status = ''D'' then
                (case get_document_number E ''memo'' g1 of
                   None \<Rightarrow> None
                 | Some (Inl e, g2) \<Rightarrow> Some (Inl e, g2)
                 | Some (Inr (num, msg), g2) \<Rightarrow>
                     Some (Inr (result\<lparr>document_type := Some ''credit_memo'',
                                        document_number := num,
                                        message_type := Some ''E'',
                                        message := Some (''The agreement status '' @ quoted status
                                          @ '' does not permit creating the final settlement! ''
                                          @ msg)\<rparr>),
                           go_to_start_window E g2))
              else if open_val \<noteq> 0 then
                Some (Inr (result\<lparr>message :=
                                     Some ''Could not settle the agreement! Open value is not 0 EUR.'',
                                   message_type := Some ''E''\<rparr>),
                      go_to_start_window E g1)
              else
                (let thresh = cap_threshold thresh0;
                     err_msg = ''Could not settle the agreement! The provision ''
                       @ ''open value is under the specified threshold ''
                       @ py_str_float E thresh @ '' EUR and scales are unchecked!''
                 in if \<bar>open_accr\<bar> \<ge> thresh then
                      (case scales_checked E g1 of
                         (Inl e, g2) \<Rightarrow> Some (Inl e, g2)
                       | (Inr checked, g2) \<Rightarrow>
                           if \<not> checked then
                             Some (Inr (result\<lparr>message_type := Some ''E'',
                                                message := Some err_msg\<rparr>),
                                   go_to_start_window E g2)
                           else settle_create E result g2)
                    else settle_create E result g1)))"

text \<open>\<^verbatim>\<open>settle_agreement\<close> on the GUI, once the session is known to be open.\<close>

definition settle_gui ::
  "'g env \<Rightarrow> int \<Rightarrow> real \<Rightarrow> bool \<Rightarrow> bool \<Rightarrow> 'g \<Rightarrow> ((exn + result) \<times> 'g) option" where
  "settle_gui E num thresh accept_inactive_accs accept_outdated_vols g =
     (case vbo2_find E num accept_inactive_accs accept_outdated_vols g of
        (Inl e, g1) \<Rightarrow> Some (Inl e, g1)
      | (Inr r, g1) \<Rightarrow>
          (case unpack2 r of
             Inl e \<Rightarrow> Some (Inl e, g1)
           | Inr (msg_type, msg) \<Rightarrow>
               if msg_type \<noteq> ''I'' then settle_not_opened E msg_type msg g1
               else settle_opened E thresh g1))"

section \<open>Process state\<close>

text \<open>
  The three session modules keep their session and the GUI objects bound to it in module
  globals; \<open>None\<close> is Python's \<^verbatim>\<open>None\<close>. The world is the GUI, the module globals,
  the data directory, the log written so far and the snapshots dumped so far.
\<close>

record vbo2_globals =
  vbo2_sess :: "session option"
  vbo2_main_wnd :: "gui_obj option"
  vbo2_stat_bar :: "gui_obj option"
  vbo2_tool_bar :: "gui_obj option"
  vbo2_menu_bar :: "gui_obj option"

record va02_globals =
  va02_sess :: "session option"
  va02_main_wnd :: "gui_obj option"
  va02_stat_bar :: "gui_obj option"
  va02_user_area :: "gui_obj option"

record so01_globals =
  so01_sess :: "session option"
  so01_main_wnd :: "gui_obj option"
  so01_user_area :: "gui_obj option"

text \<open>
  A row of the orchestrator's output table: the agreement number of the input and the
  four columns \<^verbatim>\<open>process_agreements\<close> adds (\<open>None\<close> is \<^verbatim>\<open>pd.NA\<close> or \<^verbatim>\<open>None\<close>).
\<close>

record output_row =
  agreement :: int
  out_open_value :: "real option"
  out_open_accruals :: "real option"
  out_credit_memo :: "int option"
  out_message :: "string option"

record 'g world =
  gui :: 'g
  vbo2 :: vbo2_globals
  va02 :: va02_globals
  so01 :: so01_globals
  data_files :: data_dir
  logged :: log
  dumps :: "output_row list list"

definition log_msg :: "level \<Rightarrow> string \<Rightarrow> 'g world \<Rightarrow> 'g world" where
  "log_msg lvl msg w = w\<lparr>logged := logged w @ [(lvl, msg)]\<rparr>"

definition closed_msg :: string where
  "closed_msg = ''Attempt to perform an operation on a closed trasnsaction!''"

definition unbound_msg :: string where
  "unbound_msg = ''Argument '' @ quoted ''sess'' @ '' is unbound!''"

subsection \<open>vbo2: start, close, settle_agreement\<close>

definition vbo2_start :: "'g env \<Rightarrow> session option \<Rightarrow> 'g world \<Rightarrow> (exn + unit) \<times> 'g world" where
  "vbo2_start E sess w =
     (if vbo2_sess (vbo2 w) \<noteq> None then (Inr (), w)
      else case sess of
        None \<Rightarrow> (Inl (UnboundLocalError unbound_msg), w)
      | Some s \<Rightarrow>
          (let w1 = log_msg INFO ''Starting VBO2 ...'' w;
               w2 = w1\<lparr>vbo2 := \<lparr>vbo2_sess = Some s,
                                  vbo2_main_wnd = Some (GuiObj s ''wnd[0]''),
                                  vbo2_stat_bar = Some (GuiObj s ''wnd[0]/sbar''),
                                  vbo2_tool_bar = Some (GuiObj s ''wnd[0]/tbar[1]''),
                                  vbo2_menu_bar = Some (GuiObj s ''wnd[0]/mbar'')\<rparr>,
                       gui := gui_start_transaction E ''VBO2'' (gui w1)\<rparr>
           in (Inr (), log_msg INFO ''VBO2 running.'' w2)))"

definition vbo2_close :: "'g env \<Rightarrow> 'g world \<Rightarrow> 'g world" where
  "vbo2_close E w =
     (let w1 = log_msg INFO ''Closing VBO2 ...'' w in
      if vbo2_sess (vbo2 w1) = None then w1
      else
        (let g1 = gui_end_transaction E (gui w1);
             g2 = (if is_popup_dialog E None g1 then close_popup_dialog E True g1 else g1);
             w2 = w1\<lparr>gui := g2,
                     vbo2 := \<lparr>vbo2_sess = None, vbo2_main_wnd = None, vbo2_stat_bar = None,
                               vbo2_tool_bar = None, vbo2_menu_bar = None\<rparr>\<rparr>
         in log_msg INFO ''VBO2 closed.'' w2))"

definition settle_agreement ::
  "'g env \<Rightarrow> int \<Rightarrow> real \<Rightarrow> bool \<Rightarrow> bool \<Rightarrow> 'g world \<Rightarrow> ((exn + result) \<times> 'g world) option"
  where
  "settle_agreement E num thresh accept_inactive_accs accept_outdated_vols w =
     (if vbo2_sess (vbo2 w) = None then Some (Inl (TransactionClosedError closed_msg), w)
      else case settle_gui E num thresh accept_inactive_accs accept_outdated_vols (gui w) of
             None \<Rightarrow> None
           | Some (r, g1) \<Rightarrow> Some (r, w\<lparr>gui := g1\<rparr>))"

section \<open>The order-amendment session (va02.py)\<close>

definition va02_get_dialog_text :: "'g env \<Rightarrow> 'g \<Rightarrow> exn + string" where
  "va02_get_dialog_text E g =
     (if gui_active_wnd_type E g = ''GuiModalWindow''
      then Inr (strip (gui_dialog_child_text E 1 g))
      else Inl (AssertionError []))"

definition va02_is_popup_dialog :: "'g env \<Rightarrow> string option \<Rightarrow> 'g \<Rightarrow> bool" where
  "va02_is_popup_dialog E msg g =
     (if gui_active_wnd_type E g = ''GuiModalWindow''
      then (case msg of None \<Rightarrow> True
            | Some m \<Rightarrow> py_in m (strip (gui_dialog_child_text E 1 g)))
      else False)"

definition is_error_message :: "'g env \<Rightarrow> string option \<Rightarrow> 'g \<Rightarrow> bool" where
  "is_error_message E msg g =
     (if gui_sbar_msg_type E g = ''E''
      then (case msg of None \<Rightarrow> True | Some m \<Rightarrow> py_in m (gui_sbar_text E g))
      else False)"

definition set_order_number :: "'g env \<Rightarrow> string \<Rightarrow> 'g \<Rightarrow> 'g" where
  "set_order_number E val = gui_set_text E ''VBAK-VBELN'' val"

definition va02_clear_input_field :: "'g env \<Rightarrow> 'g \<Rightarrow> 'g" where
  "va02_clear_input_field E = set_order_number E []"

definition press_search :: "'g env \<Rightarrow> 'g \<Rightarrow> 'g" where
  "press_search E = gui_press E ''BT_SUCH''"

definition get_tab :: "'g env \<Rightarrow> string \<Rightarrow> 'g \<Rightarrow> exn + nat" where
  "get_tab E name g =
     (case index_of name (gui_tab_names E g) 0 of
        Some i \<Rightarrow> Inr i
      | None \<Rightarrow> Inl (AssertionError (''Tab with name '' @ quoted name @ '' not found!'')))"

definition display_header_details :: "'g env \<Rightarrow> 'g \<Rightarrow> 'g" where
  "display_header_details E g =
     (if \<not> gui_exists E ''BT_HEAD'' g then g else gui_press E ''BT_HEAD'' g)"

text \<open>
  The target row of \<^verbatim>\<open>_add_entry\<close>: the first row with an empty partner cell, the last
  row when there is none, row 0 of an empty table.
\<close>

definition next_partner_row :: "string list \<Rightarrow> nat" where
  "next_partner_row rows =
     (case index_of [] rows 0 of Some i \<Rightarrow> i | None \<Rightarrow> length rows - 1)"

definition add_entry :: "'g env \<Rightarrow> string \<Rightarrow> string \<Rightarrow> 'g \<Rightarrow> 'g" where
  "add_entry E key val g = gui_set_partner E (next_partner_row (gui_partner_rows E g)) key val g"

text \<open>
  The loop of \<^verbatim>\<open>_open_order\<close> over blocking dialogs; it runs for as long as the GUI
  keeps a dialog open.
\<close>

partial_function (option) dismiss_order_dialogs ::
  "'g env \<Rightarrow> 'g \<Rightarrow> ((exn + unit) \<times> 'g) option" where
  "dismiss_order_dialogs E g =
     (if va02_is_popup_dialog E None g then
        (if va02_is_popup_dialog E (Some ''Order is blocked. Please check status details'') g
         then dismiss_order_dialogs E (close_popup_dialog E True g)
         else if va02_is_popup_dialog E (Some ''has delivery block'') g
         then dismiss_order_dialogs E (close_popup_dialog E True g)
         else (case va02_get_dialog_text E g of
                 Inl e \<Rightarrow> Some (Inl e, g)
               | Inr msg \<Rightarrow> Some (Inl (RuntimeError msg), g)))
      else Some (Inr (), g))"

declare dismiss_order_dialogs.simps [code]

definition open_order :: "'g env \<Rightarrow> int \<Rightarrow> 'g \<Rightarrow> ((exn + unit) \<times> 'g) option" where
  "open_order E num g =
     (let g1 = press_search E (set_order_number E (str_int num) g);
          g2 = (if va02_is_popup_dialog E (Some ''is marked for deletion'') g1
                then close_popup_dialog E True g1 else g1)
      in if is_error_message E (Some ''No authorization for maintaining'') g2
         then Some (Inl (AuthorizationMissingError (gui_sbar_text E g2)), g2)
         else if is_error_message E None g2
         then Some (Inl (RuntimeError (gui_sbar_text E g2)), g2)
         else dismiss_order_dialogs E g2)"

definition toggle_invoice_printing :: "'g env \<Rightarrow> bool \<Rightarrow> 'g \<Rightarrow> (exn + unit) \<times> 'g" where
  "toggle_invoice_printing E toggled g =
     (let g1 = display_header_details E g in
      case get_tab E ''Billing Document'' g1 of
        Inl e \<Rightarrow> (Inl e, g1)
      | Inr i \<Rightarrow>
          (let g2 = gui_select_tab E i g1 in
           case get_tab E ''Billing Document'' g2 of
             Inl e \<Rightarrow> (Inl e, g2)
           | Inr j \<Rightarrow> (Inr (), gui_set_selected E ''VBKD-MRNKZ'' (\<not> toggled) g2)))"

datatype py_id = IdInt int | IdStr string

fun str_id :: "py_id \<Rightarrow> string" where
  "str_id (IdInt i) = str_int i"
| "str_id (IdStr s) = s"

fun add_entries :: "'g env \<Rightarrow> nat \<Rightarrow> py_id list \<Rightarrow> 'g \<Rightarrow> 'g" where
  "add_entries E n [] g = g"
| "add_entries E n (usr_id # rest) g =
     add_entries E (n + 1) rest (add_entry E (''Y'' @ str_nat n) (str_id usr_id) g)"

definition add_approvers :: "'g env \<Rightarrow> py_id list \<Rightarrow> 'g \<Rightarrow> (exn + unit) \<times> 'g" where
  "add_approvers E user_ids g =
     (let g1 = display_header_details E g in
      case get_tab E ''Partners'' g1 of
        Inl e \<Rightarrow> (Inl e, g1)
      | Inr i \<Rightarrow> (Inr (), add_entries E 1 user_ids (gui_select_tab E i g1)))"

text \<open>\<^verbatim>\<open>os.path.split\<close>: the folder and the file name around the last separator.\<close>

definition is_sep :: "char \<Rightarrow> bool" where
  "is_sep c = (c = CHR ''/'' \<or> c = CHR 0x5C)"

definition path_split :: "string \<Rightarrow> string \<times> string" where
  "path_split p =
     (let file_name = rev (takeWhile (\<lambda>c. \<not> is_sep c) (rev p));
          head = take (length p - length file_name) p;
          folder = rev (dropWhile is_sep (rev head))
      in (if folder = [] then head else folder, file_name))"

definition format_sap_path :: "string \<Rightarrow> string" where
  "format_sap_path folder_path = folder_path @ [CHR 0x5C]"

definition attach_failed_msg :: string where
  "attach_failed_msg =
     ''Failed to open attachments list! Possible cause: The 'Attachments' button ''
     @ ''is completely missing from the transaction toolbar or an incorrect path to ''
     @ ''an existing GUI object is used. All previous changes have been saved.''"

definition attach_file :: "'g env \<Rightarrow> string \<Rightarrow> 'g \<Rightarrow> (exn + unit) \<times> 'g" where
  "attach_file E file_path g =
     (case path_split file_path of
        (folder_path, file_name) \<Rightarrow>
          if \<not> os_isfile E file_path
          then (Inl (FileNotFoundError (''File '' @ quoted file_path @ '' doesn't exist!'')), press_save E g)
          else
            (case gui_attach_dialog E (format_sap_path folder_path) file_name g of
               (False, g1) \<Rightarrow> (Inl (RuntimeError attach_failed_msg), press_save E g1)
             | (True, g1) \<Rightarrow> (Inr (), press_enter E g1)))"

definition va02_start :: "'g env \<Rightarrow> session option \<Rightarrow> 'g world \<Rightarrow> (exn + unit) \<times> 'g world" where
  "va02_start E sess w =
     (if va02_sess (va02 w) \<noteq> None then (Inr (), w)
      else case sess of
        None \<Rightarrow> (Inl (UnboundLocalError unbound_msg), w)
      | Some s \<Rightarrow>
          (Inr (),
           w\<lparr>va02 := \<lparr>va02_sess = Some s,
                       va02_main_wnd = Some (GuiObj s ''wnd[0]''),
                       va02_stat_bar = Some (GuiObj s ''wnd[0]/sbar''),
                       va02_user_area = Some (GuiObj s ''wnd[0]/usr'')\<rparr>,
             gui := va02_clear_input_field E (gui_start_transaction E ''VA02'' (gui w))\<rparr>))"

text \<open>\<^verbatim>\<open>close\<close> of va02.py resets three of the four globals: not \<^verbatim>\<open>_user_area\<close>.\<close>

definition va02_close :: "'g env \<Rightarrow> 'g world \<Rightarrow> 'g world" where
  "va02_close E w =
     (if va02_sess (va02 w) = None then w
      else
        (let g1 = gui_end_transaction E (gui w);
             g2 = (if va02_is_popup_dialog E None g1 then close_popup_dialog E True g1 else g1)
         in w\<lparr>gui := g2,
              va02 := (va02 w)\<lparr>va02_sess := None, va02_main_wnd := None,
                               va02_stat_bar := None\<rparr>\<rparr>))"

text \<open>The approvers check of \<^verbatim>\<open>change_sales_order\<close>: the first invalid id raises.\<close>

fun check_approvers :: "py_id list \<Rightarrow> exn option" where
  "check_approvers [] = None"
| "check_approvers (app # rest) =
     (if \<not> (isnumeric (str_id app) \<and> length (str_id app) = 8)
      then Some (ValueError (''Invalid approver ID used: '' @ str_id app @ ''!''))
      else check_approvers rest)"

text \<open>
  The steps of \<^verbatim>\<open>change_sales_order\<close> after the order has been opened. The arguments
  are typed, so the two \<^verbatim>\<open>TypeError\<close> branches of the source have no input here.
\<close>

definition change_opened_order ::
  "'g env \<Rightarrow> bool option \<Rightarrow> py_id list option \<Rightarrow> string option \<Rightarrow> 'g \<Rightarrow> (exn + unit) \<times> 'g"
  where
  "change_opened_order E print_invoice approvers att_path g =
     (case (case print_invoice of
              None \<Rightarrow> (Inr (), g)
            | Some p \<Rightarrow> toggle_invoice_printing E p g) of
        (Inl e, g1) \<Rightarrow> (Inl e, g1)
      | (Inr u, g1) \<Rightarrow>
          (case (case approvers of
                   None \<Rightarrow> (Inr (), g1)
                 | Some apps \<Rightarrow>
                     if length apps > 1 then
                       (case check_approvers apps of
                          Some e \<Rightarrow> (Inl e, g1)
                        | None \<Rightarrow> add_approvers E apps g1)
                     else (Inr (), g1)) of
             (Inl e, g2) \<Rightarrow> (Inl e, g2)
           | (Inr u, g2) \<Rightarrow>
               (case (case att_path of
                        None \<Rightarrow> (Inr (), g2)
                      | Some p \<Rightarrow> attach_file E p g2) of
                  (Inl e, g3) \<Rightarrow> (Inl e, g3)
                | (Inr u, g3) \<Rightarrow> (Inr (), press_save E g3))))"

definition change_sales_order ::
  "'g env \<Rightarrow> int \<Rightarrow> bool option \<Rightarrow> py_id list option \<Rightarrow> string option \<Rightarrow> 'g world
     \<Rightarrow> ((exn + unit) \<times> 'g world) option" where
  "change_sales_order E num print_invoice approvers att_path w =
     (if va02_sess (va02 w) = None then Some (Inl (TransactionClosedError closed_msg), w)
      else if \<not> (isnumeric (str_int num) \<and> length (str_int num) = 9)
      then Some (Inl (ValueError (''Invalid order number used: '' @ str_int num @ ''!'')), w)
      else if print_invoice = None \<and> approvers = None \<and> att_path = None
      then Some (Inr (), w)
      else
        (case open_order E num (gui w) of
           None \<Rightarrow> None
         | Some (Inl e, g1) \<Rightarrow> Some (Inl e, w\<lparr>gui := g1\<rparr>)
         | Some (Inr u, g1) \<Rightarrow>
             (case change_opened_order E print_invoice approvers att_path g1 of
                (r, g2) \<Rightarrow> Some (r, w\<lparr>gui := g2\<rparr>))))"

section \<open>The workflow-item session (so01.py)\<close>

definition so01_start :: "'g env \<Rightarrow> session option \<Rightarrow> 'g world \<Rightarrow> (exn + unit) \<times> 'g world" where
  "so01_start E sess w =
     (if so01_sess (so01 w) \<noteq> None then (Inr (), w)
      else case sess of
        None \<Rightarrow> (Inl (UnboundLocalError unbound_msg), w)
      | Some s \<Rightarrow>
          (Inr (),
           w\<lparr>so01 := \<lparr>so01_sess = Some s,
                       so01_main_wnd = Some (GuiObj s ''wnd[0]''),
                       so01_user_area = Some (GuiObj s ''wnd[0]/usr'')\<rparr>,
             gui := gui_start_transaction E ''SO01'' (gui w)\<rparr>))"

definition so01_close :: "'g env \<Rightarrow> 'g world \<Rightarrow> 'g world" where
  "so01_close E w =
     (if so01_sess (so01 w) = None then w
      else
        (let g1 = gui_end_transaction E (gui w);
             g2 = (if is_popup_dialog E None g1 then close_popup_dialog E True g1 else g1)
         in w\<lparr>gui := g2,
              so01 := \<lparr>so01_sess = None, so01_main_wnd = None, so01_user_area = None\<rparr>\<rparr>))"

definition item_table_id :: string where
  "item_table_id =
     ''cntlSINWP_CONTAINER/shellcont/shell/shellcont[1]/shell/shellcont[0]/shell''"

definition get_item_table :: "'g world \<Rightarrow> exn + gui_obj" where
  "get_item_table w =
     (if so01_sess (so01 w) = None then Inl (TransactionClosedError closed_msg)
      else case so01_user_area (so01 w) of
             None \<Rightarrow> Inl (AttributeError (quoted ''NoneType'' @ '' object has no attribute '' @ quoted ''FindById''))
           | Some (GuiObj s path) \<Rightarrow> Inr (GuiObj s (path @ ''/'' @ item_table_id)))"

partial_function (option) confirm_popups :: "'g env \<Rightarrow> 'g \<Rightarrow> 'g option" where
  "confirm_popups E g =
     (if is_popup_dialog E None g then confirm_popups E (close_popup_dialog E True g)
      else Some g)"

declare confirm_popups.simps [code]

definition set_rejection_reason :: "'g env \<Rightarrow> string \<Rightarrow> 'g \<Rightarrow> 'g option" where
  "set_rejection_reason E val g =
     confirm_popups E (press_enter E (gui_set_text E ''wnd[1]/usr/ctxtRGTOOLS-FIELD'' val g))"

text \<open>
  The loop of \<^verbatim>\<open>process_workflow\<close> from row \<open>row_idx\<close> on. The row count is read from
  the GUI at every turn. \<open>user_area\<close> is the module global \<^verbatim>\<open>_user_area\<close>, used only
  once a row matches.
\<close>

partial_function (option) workflow_rows ::
  "'g env \<Rightarrow> gui_obj option \<Rightarrow> string \<Rightarrow> nat \<Rightarrow> 'g \<Rightarrow> ((exn + bool) \<times> 'g) option" where
  "workflow_rows E user_area kwd row_idx g =
     (if row_idx < gui_grid_row_count E g then
        (let title0 = gui_grid_cell_value E row_idx ''OBJDES'' g;
             g1 = (if title0 = [] then gui_grid_select_cell E row_idx ''OBJDES'' g else g);
             title = (if title0 = [] then gui_grid_cell_value E row_idx ''OBJDES'' g1 else title0)
         in if \<not> py_in kwd title then workflow_rows E user_area kwd (row_idx + 1) g1
            else
              (let g2 = gui_grid_double_click E (gui_grid_select_cell E row_idx ''OBJDES'' g1) in
               case user_area of
                 None \<Rightarrow>
                   Some (Inl (AttributeError (quoted ''NoneType'' @ '' object has no attribute '' @ quoted ''FindById'')), g2)
               | Some ua \<Rightarrow>
                   (case set_rejection_reason E ''Z1''
                           (gui_sap_event E ''sapevent:DECI:0002'' g2) of
                      None \<Rightarrow> None
                    | Some g3 \<Rightarrow> Some (Inr True, g3))))
      else Some (Inr False, g))"

declare workflow_rows.simps [code]

definition process_workflow ::
  "'g env \<Rightarrow> gui_obj \<Rightarrow> string \<Rightarrow> 'g world \<Rightarrow> ((exn + bool) \<times> 'g world) option" where
  "process_workflow E items kwd w =
     (case workflow_rows E (so01_user_area (so01 w)) kwd 0 (gui w) of
        None \<Rightarrow> None
      | Some (r, g1) \<Rightarrow> Some (r, w\<lparr>gui := g1\<rparr>))"

section \<open>The orchestrator (controller.py)\<close>

record rules =
  rules_threshold :: real
  rules_approvers :: "py_id list"
  rules_country :: string

definition dump_data :: "output_row list \<Rightarrow> 'g world \<Rightarrow> 'g world" where
  "dump_data output w =
     log_msg INFO ''Data dump created.''
       ((log_msg INFO ''Dumping processing output ...'' w)\<lparr>dumps := dumps w @ [output]\<rparr>)"

definition py_str_opt :: "string option \<Rightarrow> string" where
  "py_str_opt m = (case m of None \<Rightarrow> ''None'' | Some s \<Rightarrow> s)"

definition log_result :: "result \<Rightarrow> 'g world \<Rightarrow> 'g world" where
  "log_result r w =
     (if message_type r = Some ''I'' then log_msg INFO (py_str_opt (message r)) w
      else if message_type r = Some ''W'' then log_msg WARNING (py_str_opt (message r)) w
      else if message_type r = Some ''E'' then log_msg ERROR (py_str_opt (message r)) w
      else w)"

definition record_result :: "nat \<Rightarrow> result \<Rightarrow> output_row list \<Rightarrow> output_row list" where
  "record_result idx r output =
     output[idx := (output ! idx)\<lparr>out_message := message r,
                                   out_credit_memo := document_number r,
                                   out_open_value := open_value r,
                                   out_open_accruals := open_accruals r\<rparr>]"

text \<open>
  The inner \<^verbatim>\<open>try / except / finally\<close> around \<^verbatim>\<open>va02.change_sales_order\<close>. An
  exception of the amendment is logged and its text appended to the row's message; the
  session is closed on every path. \<open>Inl\<close> is an exception that leaves the block: here
  only the \<^verbatim>\<open>+=\<close> on a message that is \<^verbatim>\<open>None\<close>, which raises before the table
  is written, so the table is then the one the block was entered with.
\<close>

definition amend_order ::
  "'g env \<Rightarrow> nat \<Rightarrow> int \<Rightarrow> py_id list \<Rightarrow> string \<Rightarrow> output_row list \<times> 'g world
     \<Rightarrow> ((exn + output_row list) \<times> 'g world) option" where
  "amend_order E idx doc_num approvers att_path = (\<lambda>(output, w).
     (let w1 = log_msg INFO ''Updating order parameters ...'' w;
          fin = (\<lambda>w. log_msg INFO ''VA02 closed.''
                            (va02_close E (log_msg INFO ''Closing VA02 ...'' w)))
      in case change_sales_order E doc_num (Some False) (Some approvers) (Some att_path) w1 of
           None \<Rightarrow> None
         | Some (Inr u, w2) \<Rightarrow>
             Some (Inr output, fin (log_msg INFO ''Order parameters updated.'' w2))
         | Some (Inl exc, w2) \<Rightarrow>
             (let w3 = log_msg ERROR (str_exn exc) w2;
                  err_msg = ''Error changing the sales order! '' @ str_exn exc
              in case out_message (output ! idx) of
                   None \<Rightarrow>
                     Some (Inl (TypeError
                       (''unsupported operand type(s) for +=: '' @ quoted ''NoneType''
                        @ '' and '' @ quoted ''str'')), fin w3)
                 | Some m \<Rightarrow>
                     Some (Inr (output[idx := (output ! idx)\<lparr>out_message := Some (m @ err_msg)\<rparr>]),
                           fin w3))))"

text \<open>
  The first statements of the outer \<^verbatim>\<open>try\<close>: the settlement session is started and
  the agreement settled, with \<^verbatim>\<open>accept_inactive_accs = True\<close> and
  \<^verbatim>\<open>accept_outdated_vols\<close> left at its default.
\<close>

definition settle_item ::
  "'g env \<Rightarrow> session option \<Rightarrow> real \<Rightarrow> int \<Rightarrow> 'g world \<Rightarrow> ((exn + result) \<times> 'g world) option"
  where
  "settle_item E sess thresh agt_num w =
     (case vbo2_start E sess w of
        (Inl e, w1) \<Rightarrow> Some (Inl e, w1)
      | (Inr u, w1) \<Rightarrow> settle_agreement E agt_num thresh True False w1)"

text \<open>
  What follows a credit memo request: the settlement session is closed, the order
  amended, the number appended to the batch file. The output table is a data frame that
  the loop updates in place, so an exception that escapes is paired with the table as it
  is when the exception is raised: that table is what the outer handler dumps.
\<close>

definition item_amend ::
  "'g env \<Rightarrow> session option \<Rightarrow> py_id list \<Rightarrow> string \<Rightarrow> nat \<Rightarrow> nat \<Rightarrow> int
     \<Rightarrow> output_row list \<times> 'g world
     \<Rightarrow> ((exn \<times> output_row list + output_row list) \<times> 'g world) option" where
  "item_amend E sess approvers att_path batch_idx idx doc_num = (\<lambda>(output, w).
     (case va02_start E sess (log_msg INFO ''Starting VA02 ...'' (vbo2_close E w)) of
        (Inl e, w1) \<Rightarrow> Some (Inl (e, output), w1)
      | (Inr u, w1) \<Rightarrow>
          (case amend_order E idx doc_num approvers att_path
                  (output, log_msg INFO ''VA02 running.'' w1) of
             None \<Rightarrow> None
           | Some (Inl e, w2) \<Rightarrow> Some (Inl (e, output), w2)
           | Some (Inr output1, w2) \<Rightarrow>
               (let w3 = log_msg INFO ''Updating the data batch on the credit memo ...'' w2
                in case update_batch_data batch_idx doc_num (data_files w3) of
                     Inl e \<Rightarrow> Some (Inl (e, output1), w3)
                   | Inr d \<Rightarrow>
                       Some (Inr output1,
                             log_msg INFO ''Data batch successfully updated.''
                               (w3\<lparr>data_files := d\<rparr>))))))"

text \<open>
  The body of the outer \<^verbatim>\<open>try\<close> for one row. \<open>Inl\<close> is an exception that escapes
  it, with the output table at that moment: the table of the turn's start when the
  settlement raises, the table with the row's result recorded afterwards. \<open>Inr\<close> is the
  output table when the body ends or takes its \<^verbatim>\<open>continue\<close>.
\<close>

definition item_body ::
  "'g env \<Rightarrow> session option \<Rightarrow> real \<Rightarrow> py_id list \<Rightarrow> string \<Rightarrow> nat \<Rightarrow> nat \<Rightarrow> int
     \<Rightarrow> output_row list \<times> 'g world
     \<Rightarrow> ((exn \<times> output_row list + output_row list) \<times> 'g world) option" where
  "item_body E sess thresh approvers att_path batch_idx idx agt_num = (\<lambda>(output, w).
     (case settle_item E sess thresh agt_num w of
        None \<Rightarrow> None
      | Some (Inl e, w1) \<Rightarrow> Some (Inl (e, output), w1)
      | Some (Inr r, w1) \<Rightarrow>
          (let w2 = log_result r w1;
               output1 = record_result idx r output
           in case document_number r of
                None \<Rightarrow> Some (Inr output1, w2)
              | Some doc_num \<Rightarrow>
                  if document_type r = Some ''credit_memo'' then Some (Inr output1, w2)
                  else item_amend E sess approvers att_path batch_idx idx doc_num
                         (output1, w2))))"

text \<open>
  One turn of the loop of \<^verbatim>\<open>process_agreements\<close>: the body, and the outer
  \<^verbatim>\<open>except\<close> that dumps the output table, as the turn has left it, and raises
  \<^verbatim>\<open>RuntimeError\<close>.
\<close>

definition process_item ::
  "'g env \<Rightarrow> session option \<Rightarrow> real \<Rightarrow> py_id list \<Rightarrow> string \<Rightarrow> nat \<Rightarrow> nat \<Rightarrow> nat \<Rightarrow> int
     \<Rightarrow> output_row list \<times> 'g world \<Rightarrow> ((exn + output_row list) \<times> 'g world) option" where
  "process_item E sess thresh approvers att_path batch_idx n_items idx agt_num = (\<lambda>(output, w).
     (let w0 = log_msg INFO (''--------- Agreement '' @ str_int agt_num @ '' (''
                   @ str_nat (idx + 1) @ '' of '' @ str_nat n_items @ '') ---------'') w
      in case item_body E sess thresh approvers att_path batch_idx idx agt_num (output, w0) of
           None \<Rightarrow> None
         | Some (Inl (exc, output1), w1) \<Rightarrow>
             Some (Inl (RuntimeError (''Unhandled exception: '' @ str_exn exc)),
                   dump_data output1 (log_msg ERROR (str_exn exc) w1))
         | Some (Inr output1, w1) \<Rightarrow>
             Some (Inr output1, log_msg INFO (''Agreement processed.'' @ [CHR 0x0A]) w1)))"

fun process_rows ::
  "'g env \<Rightarrow> session option \<Rightarrow> real \<Rightarrow> py_id list \<Rightarrow> string \<Rightarrow> nat \<Rightarrow> nat \<Rightarrow> nat \<Rightarrow> int list
     \<Rightarrow> output_row list \<times> 'g world \<Rightarrow> ((exn + output_row list) \<times> 'g world) option" where
  "process_rows E sess thresh approvers att_path batch_idx n_items idx [] (output, w) =
     Some (Inr output, w)"
| "process_rows E sess thresh approvers att_path batch_idx n_items idx (agt_num # rest) (output, w) =
     (case process_item E sess thresh approvers att_path batch_idx n_items idx agt_num (output, w) of
        None \<Rightarrow> None
      | Some (Inl e, w1) \<Rightarrow> Some (Inl e, w1)
      | Some (Inr output1, w1) \<Rightarrow>
          process_rows E sess thresh approvers att_path batch_idx n_items (idx + 1) rest
            (output1, w1))"

definition new_row :: "int \<Rightarrow> output_row" where
  "new_row agt_num =
     \<lparr>agreement = agt_num, out_open_value = None, out_open_accruals = None,
      out_credit_memo = None, out_message = Some []\<rparr>"

definition process_agreements ::
  "'g env \<Rightarrow> session option \<Rightarrow> rules \<Rightarrow> int list \<Rightarrow> string \<Rightarrow> string \<Rightarrow> 'g world
     \<Rightarrow> ((exn + output_row list) \<times> 'g world) option" where
  "process_agreements E sess rls data att_path cocd w =
     (if data = [] then Some (Inl (ValueError ''No records in user data!''), w)
      else
        (let thresh = max (rules_threshold rls) 0;
             approvers = rules_approvers rls;
             n_items = length data;
             output = map new_row data
         in case create_batch_file (rules_country rls) cocd (data_files w) of
              (batch_idx, d) \<Rightarrow>
                process_rows E sess thresh approvers att_path batch_idx n_items 0 data
                  (output, w\<lparr>data_files := d\<rparr>)))"

section \<open>The finalization runner (controller.py, svc.py)\<close>









section \<open>A scripted GUI for the examples\<close>

text \<open>
  The examples below run the program against a GUI that plays back a script: the script
  gives the screen shown after each number of actions, the state is the number of
  actions made so far, and every read looks at the current screen. The built-ins read
  decimal numerals and print two decimals.
\<close>

record screen =
  sc_type :: string
  sc_title :: string
  sc_dialog :: "string list"
  sc_buttons :: "(string \<times> string) list list"
  sc_sbar :: string
  sc_sbar_type :: string
  sc_labels :: "gui_label list"
  sc_field :: string
  sc_tree :: "(string \<times> string \<times> string list option \<times> string option) list"
  sc_toolbar :: "string list"
  sc_grid :: "string list"
  sc_table_cols :: "string list"
  sc_table_rows :: "(string \<times> bool) list list"
  sc_tabs :: "string list"
  sc_partners :: "string list"

definition main_screen :: screen where
  "main_screen =
     \<lparr>sc_type = ''GuiMainWindow'', sc_title = ''Change Agreement'', sc_dialog = [],
      sc_buttons = [], sc_sbar = [], sc_sbar_type = [], sc_labels = [], sc_field = ''A'',
      sc_tree = [], sc_toolbar = [''Conditions''], sc_grid = [], sc_table_cols = [],
      sc_table_rows = [], sc_tabs = [''Billing Document'', ''Partners''], sc_partners = []\<rparr>"

definition info_dialog :: "string \<Rightarrow> screen" where
  "info_dialog txt =
     main_screen\<lparr>sc_type := ''GuiModalWindow'', sc_title := ''Information'',
                 sc_dialog := [txt]\<rparr>"

definition parse_decimal :: "string \<Rightarrow> real option" where
  "parse_decimal s =
     (let whole = takeWhile is_digit s; rest = dropWhile is_digit s in
      if whole = [] then None
      else if rest = [] then Some (real (nat_of_digits whole))
      else if hd rest = CHR ''.'' \<and> tl rest \<noteq> [] \<and> list_all is_digit (tl rest)
      then Some (real (nat_of_digits whole)
                 + real (nat_of_digits (tl rest)) / 10 ^ length (tl rest))
      else None)"

definition parse_int :: "string \<Rightarrow> int option" where
  "parse_int s =
     (if s \<noteq> [] \<and> list_all is_digit s then Some (int (nat_of_digits s)) else None)"

definition show_decimal :: "real \<Rightarrow> string" where
  "show_decimal x =
     str_int \<lfloor>x\<rfloor> @ ''.'' @ zfill 2 (str_nat (nat \<lfloor>(x - real_of_int \<lfloor>x\<rfloor>) * 100\<rfloor>))"

definition tree_lookup ::
  "screen \<Rightarrow> string \<Rightarrow> string \<times> string list option \<times> string option" where
  "tree_lookup sc node = (case map_of (sc_tree sc) node of None \<Rightarrow> ([], None, None) | Some n \<Rightarrow> n)"

definition scripted :: "(nat \<Rightarrow> screen) \<Rightarrow> nat env" where
  "scripted script =
     \<lparr>gui_send_vkey = (\<lambda>k. Suc),
      gui_active_wnd_type = (\<lambda>s. sc_type (script s)),
      gui_active_wnd_text = (\<lambda>s. sc_title (script s)),
      gui_dialog_children = (\<lambda>s. sc_dialog (script s)),
      gui_wnd_children = (\<lambda>s. sc_buttons (script s)),
      gui_press_child = (\<lambda>i j. Suc),
      gui_set_text = (\<lambda>name val. Suc),
      gui_get_text = (\<lambda>name s. sc_field (script s)),
      gui_press = (\<lambda>name. Suc),
      gui_select = (\<lambda>name. Suc),
      gui_sbar_text = (\<lambda>s. sc_sbar (script s)),
      gui_sbar_msg_type = (\<lambda>s. sc_sbar_type (script s)),
      gui_start_transaction = (\<lambda>name. Suc),
      gui_end_transaction = Suc,
      gui_scroll_to_max = Suc,
      gui_labels = (\<lambda>s. sc_labels (script s)),
      gui_tree_top_node = (\<lambda>s. case sc_tree (script s) of [] \<Rightarrow> [] | (k, n) # rest \<Rightarrow> k),
      gui_tree_item_text = (\<lambda>node s. fst (tree_lookup (script s) node)),
      gui_tree_sub_nodes = (\<lambda>node s. fst (snd (tree_lookup (script s) node))),
      gui_tree_next_node = (\<lambda>node s. snd (snd (tree_lookup (script s) node))),
      gui_tool_bar_children = (\<lambda>s. sc_toolbar (script s)),
      gui_press_tool_bar_child = (\<lambda>i. Suc),
      gui_grid_row_count = (\<lambda>s. length (sc_grid (script s))),
      gui_grid_cell_value =
        (\<lambda>i col s. if i < length (sc_grid (script s)) then sc_grid (script s) ! i else []),
      gui_grid_select_cell = (\<lambda>i col. Suc),
      gui_grid_double_click = Suc,
      gui_table_type = (\<lambda>s. ''GuiTableControl''),
      gui_table_columns = (\<lambda>s. sc_table_cols (script s)),
      gui_table_cell_text =
        (\<lambda>r c s. if r < length (sc_table_rows (script s)) \<and> c < length (sc_table_rows (script s) ! r)
                  then fst (sc_table_rows (script s) ! r ! c) else []),
      gui_table_cell_selected =
        (\<lambda>r c s. r < length (sc_table_rows (script s)) \<and> c < length (sc_table_rows (script s) ! r)
                  \<and> snd (sc_table_rows (script s) ! r ! c)),
      gui_table_visible_row_count = (\<lambda>s. length (sc_table_rows (script s))),
      gui_dialog_child_text =
        (\<lambda>i s. if i < length (sc_dialog (script s)) then sc_dialog (script s) ! i else []),
      gui_exists = (\<lambda>name s. True),
      gui_tab_names = (\<lambda>s. sc_tabs (script s)),
      gui_select_tab = (\<lambda>i. Suc),
      gui_set_selected = (\<lambda>name b. Suc),
      gui_partner_rows = (\<lambda>s. sc_partners (script s)),
      gui_set_partner = (\<lambda>i key val. Suc),
      gui_attach_dialog = (\<lambda>folder file_name s. (True, Suc s)),
      gui_sap_event = (\<lambda>ev. Suc),
      gui_close_connection = Suc,
      os_isfile = (\<lambda>p. True),
      py_float = parse_decimal,
      py_int = parse_int,
      py_str_float = show_decimal\<rparr>"

text \<open>The world of a fresh process: no session started, nothing logged.\<close>

definition init_world :: "'g \<Rightarrow> data_dir \<Rightarrow> 'g world" where
  "init_world g d =
     \<lparr>gui = g,
      vbo2 = \<lparr>vbo2_sess = None, vbo2_main_wnd = None, vbo2_stat_bar = None,
               vbo2_tool_bar = None, vbo2_menu_bar = None\<rparr>,
      va02 = \<lparr>va02_sess = None, va02_main_wnd = None, va02_stat_bar = None,
               va02_user_area = None\<rparr>,
      so01 = \<lparr>so01_sess = None, so01_main_wnd = None, so01_user_area = None\<rparr>,
      data_files = d, logged = [], dumps = []\<rparr>"

definition yellow :: "string \<Rightarrow> string \<Rightarrow> gui_label" where
  "yellow ident txt =
     \<lparr>label_id = ident, color_index = 3, color_intensified = False, label_text = txt\<rparr>"

text \<open>
  An agreement with open value 0,00 and open accruals 25,50 that the system settles,
  creating the credit memo request 123456789. The screens follow the calls of
  \<^verbatim>\<open>start\<close> and \<^verbatim>\<open>settle_agreement\<close> one by one.
\<close>

definition volumes_screen :: "string \<Rightarrow> string \<Rightarrow> screen" where
  "volumes_screen v a =
     main_screen\<lparr>sc_labels := [yellow ''lbl[1,20]'' v, yellow ''lbl[1,21]'' a]\<rparr>"

definition documents_dialog :: "string \<Rightarrow> screen" where
  "documents_dialog txt =
     main_screen\<lparr>sc_type := ''GuiModalWindow'', sc_title := ''Documents'',
                 sc_tree := [(''1'', txt, None, None)]\<rparr>"

definition settled_script :: "nat \<Rightarrow> screen" where
  "settled_script n =
     (if n < 4 then main_screen
      else if n < 7 then volumes_screen ''0,00'' ''25,50''
      else if n = 7 then info_dialog ''A credit memo request was created for settlement''
      else if n = 12 then documents_dialog ''Credit memo requests 123456789''
      else main_screen)"

text \<open>The world once the settlement session has been started on a script.\<close>

definition started :: "(nat \<Rightarrow> screen) \<Rightarrow> nat world" where
  "started script = snd (vbo2_start (scripted script) (Some 1) (init_world 0 []))"

text \<open>An open agreement (status A) with open value 5,00.\<close>

definition value_script :: "nat \<Rightarrow> screen" where
  "value_script n =
     (if 4 \<le> n \<and> n < 7 then volumes_screen ''5,00'' ''0,00'' else main_screen)"

text \<open>
  An agreement that can only be displayed: it has the credit memo 90001234 and shows an
  open value of 5,00.
\<close>

definition display_only_script :: "nat \<Rightarrow> screen" where
  "display_only_script n =
     (if n = 3 then main_screen\<lparr>sc_sbar := ''Only display is possible'', sc_sbar_type := ''W''\<rparr>
      else if n = 5 then documents_dialog ''Rebate credit memo 90001234''
      else if 7 \<le> n \<and> n < 10 then volumes_screen ''5,00'' ''0,00''
      else main_screen)"

text \<open>A closed agreement (status C) with the credit memo 90001234 and open value 5,00.\<close>

definition closed_status_script :: "nat \<Rightarrow> screen" where
  "closed_status_script n =
     (if 4 \<le> n \<and> n < 7 then (volumes_screen ''5,00'' ''0,00'')\<lparr>sc_field := ''C''\<rparr>
      else if n = 8 then documents_dialog ''Rebate credit memo 90001234''
      else main_screen)"

text \<open>
  An open agreement with open value 0,00 and open accruals 25,50 whose condition has an
  unchecked scale.
\<close>

definition conditions_screen :: screen where
  "conditions_screen =
     main_screen\<lparr>sc_grid := [''SalOrg/SalOff/CustHier/Usage''],
                 sc_table_cols := [''RV13A-KSCHL'', ''RV13A-KOSTKZ''],
                 sc_table_rows := [[(''ZB01'', False), ([], False)]]\<rparr>"

definition unchecked_script :: "nat \<Rightarrow> screen" where
  "unchecked_script n =
     (if 4 \<le> n \<and> n < 7 then volumes_screen ''0,00'' ''25,50''
      else if 7 \<le> n \<and> n < 10 then conditions_screen
      else main_screen)"

text \<open>
  The same agreement with the scale checked, which the system then settles, and an
  agreement with open value 0,00 and open accruals 0,00 that the system settles.
\<close>

definition checked_conditions_screen :: screen where
  "checked_conditions_screen =
     main_screen\<lparr>sc_grid := [''SalOrg/SalOff/CustHier/Usage''],
                 sc_table_cols := [''RV13A-KSCHL'', ''RV13A-KOSTKZ''],
                 sc_table_rows := [[(''ZB01'', False), ([], True)]]\<rparr>"

definition checked_script :: "nat \<Rightarrow> screen" where
  "checked_script n =
     (if 4 \<le> n \<and> n < 7 then volumes_screen ''0,00'' ''25,50''
      else if 7 \<le> n \<and> n < 10 then checked_conditions_screen
      else if n = 12 then info_dialog ''A credit memo request was created for settlement''
      else if n = 17 then documents_dialog ''Credit memo requests 123456789''
      else main_screen)"

definition zero_accruals_script :: "nat \<Rightarrow> screen" where
  "zero_accruals_script n =
     (if n < 4 then main_screen
      else if n < 7 then volumes_screen ''0,00'' ''0,00''
      else if n = 7 then info_dialog ''A credit memo request was created for settlement''
      else if n = 12 then documents_dialog ''Credit memo requests 123456789''
      else main_screen)"

text \<open>The results the settlement returns on the scripts above.\<close>

definition zero_accruals_result :: result where
  "zero_accruals_result =
     \<lparr>open_value = Some 0, open_accruals = Some 0, document_number = Some 123456789,
      document_type = Some ''memo_request'',
      message = Some ''Agreement successfully settled.'', message_type = Some ''I''\<rparr>"

definition settled_result :: result where
  "settled_result =
     \<lparr>open_value = Some 0, open_accruals = Some (51 / 2), document_number = Some 123456789,
      document_type = Some ''memo_request'',
      message = Some ''Agreement successfully settled.'', message_type = Some ''I''\<rparr>"

definition value_gate_result :: result where
  "value_gate_result =
     \<lparr>open_value = Some 5, open_accruals = Some 0, document_number = None,
      document_type = None,
      message = Some ''Could not settle the agreement! Open value is not 0 EUR.'',
      message_type = Some ''E''\<rparr>"

definition display_only_result :: result where
  "display_only_result =
     \<lparr>open_value = Some 5, open_accruals = Some 0, document_number = Some 90001234,
      document_type = Some ''credit_memo'', message = Some ''Only display is possible '',
      message_type = Some ''W''\<rparr>"

definition closed_status_result :: result where
  "closed_status_result =
     \<lparr>open_value = Some 5, open_accruals = Some 0, document_number = Some 90001234,
      document_type = Some ''credit_memo'',
      message = Some (''The agreement status '' @ quoted ''C''
                      @ '' does not permit creating the final settlement! ''),
      message_type = Some ''E''\<rparr>"

definition threshold_result :: result where
  "threshold_result =
     \<lparr>open_value = Some 0, open_accruals = Some (51 / 2), document_number = None,
      document_type = None,
      message = Some (''Could not settle the agreement! The provision ''
                      @ ''open value is under the specified threshold 0.01 EUR ''
                      @ ''and scales are unchecked!''),
      message_type = Some ''E''\<rparr>"

text \<open>
  The settled agreement again, where VA02 then refuses to open the credit memo request
  for want of authorization.
\<close>

definition unauthorized_script :: "nat \<Rightarrow> screen" where
  "unauthorized_script n =
     (if n = 22
      then main_screen\<lparr>sc_sbar := ''No authorization for maintaining order 123456789'',
                       sc_sbar_type := ''E''\<rparr>
      else settled_script n)"

definition example_approvers :: "py_id list" where
  "example_approvers = [IdInt 10000001, IdInt 10000002]"

definition example_rules :: rules where
  "example_rules =
     \<lparr>rules_threshold = 60, rules_approvers = example_approvers, rules_country = ''Austria''\<rparr>"

definition example_att_path :: string where
  "example_att_path = ''C:/temp/doc/permission.pdf''"

text \<open>
  An agreement whose sales volumes are not current: the dialog that says so comes up
  when the number has been entered. In the first script the dialog is gone once it has
  been confirmed, in the second it stays.
\<close>

definition not_current_script :: "nat \<Rightarrow> screen" where
  "not_current_script n =
     (if n = 3 then info_dialog ''The sales volume for agreement 5001 is not current''
      else main_screen)"

definition not_current_stays_script :: "nat \<Rightarrow> screen" where
  "not_current_stays_script n =
     (if 3 \<le> n then info_dialog ''The sales volume for agreement 5001 is not current''
      else main_screen)"

text \<open>
  The workflow inbox of SO01 with two items, none about order 777; the title of the
  second is filled in once the row has been selected.
\<close>

definition inbox :: "string list \<Rightarrow> screen" where
  "inbox titles = main_screen\<lparr>sc_title := ''Business Workplace'', sc_grid := titles\<rparr>"

definition workflow_script :: "nat \<Rightarrow> screen" where
  "workflow_script n =
     (if n < 2 then inbox [''Approve order 123'', []]
      else inbox [''Approve order 123'', ''Approve order 456''])"

text \<open>A data directory holding one pending batch.\<close>

definition one_batch_dir :: data_dir where
  "one_batch_dir =
     [(''batch_001.json'', \<lparr>country = ''Austria'', company_code = ''1001'', credit_memos = [777]\<rparr>)]"

section \<open>The batch persistence log\<close>

lemma of_char_digit_char: "d < 10 \<Longrightarrow> of_char (digit_char d) = 48 + d"
proof -
  assume "d < 10"
  then have "d = 0 \<or> d = 1 \<or> d = 2 \<or> d = 3 \<or> d = 4 \<or> d = 5 \<or> d = 6
    \<or> d = 7 \<or> d = 8 \<or> d = 9" by arith
  then show ?thesis by (auto simp: digit_char_def)
qed

lemma nat_of_digits_snoc:
  "nat_of_digits (s @ [c]) = 10 * nat_of_digits s + (of_char c - 48)"
  by (simp add: nat_of_digits_def)

lemma nat_of_digits_str_nat: "nat_of_digits (str_nat n) = n"
proof (induction n rule: str_nat.induct)
  case (1 n)
  show ?case
  proof (cases "n < 10")
    case True
    then show ?thesis
      by (simp add: str_nat.simps [of n] nat_of_digits_def of_char_digit_char)
  next
    case False
    then have "nat_of_digits (str_nat (n div 10)) = n div 10" using 1 by simp
    then show ?thesis using False
      by (simp add: str_nat.simps [of n] nat_of_digits_snoc of_char_digit_char)
  qed
qed

lemma nat_of_digits_zeros: "nat_of_digits (replicate k CHR ''0'' @ s) = nat_of_digits s"
proof -
  have "foldl (\<lambda>a c. 10 * a + (of_char c - 48)) (0::nat) (replicate k CHR ''0'') = 0"
    by (induction k) simp_all
  then show ?thesis by (simp add: nat_of_digits_def)
qed

lemma batch_id_of_path: "batch_id_of (compile_batch_path n) = n"
  by (simp add: batch_id_of_def compile_batch_path_def zfill_def nat_of_digits_zeros
      nat_of_digits_str_nat)

lemma compile_batch_path_inj: "compile_batch_path m = compile_batch_path n \<Longrightarrow> m = n"
  by (metis batch_id_of_path)

lemma used_ids_finite: "finite {m. isfile d (compile_batch_path m)}"
proof -
  have "{m. isfile d (compile_batch_path m)} \<subseteq> batch_id_of ` fst ` set d"
  proof
    fix m assume "m \<in> {m. isfile d (compile_batch_path m)}"
    then have "compile_batch_path m \<in> fst ` set d"
      by (auto simp: isfile_def dest: map_of_SomeD intro: rev_image_eqI)
    then have "batch_id_of (compile_batch_path m) \<in> batch_id_of ` fst ` set d" by blast
    then show "m \<in> batch_id_of ` fst ` set d" by (simp add: batch_id_of_path)
  qed
  then show ?thesis by (rule finite_subset) simp
qed

termination first_unused
proof (relation "measure (\<lambda>(d, n). card {m. n \<le> m \<and> isfile d (compile_batch_path m)})")
  show "wf (measure (\<lambda>(d, n). card {m. n \<le> m \<and> isfile d (compile_batch_path m)}))"
    by simp
next
  fix d n
  assume used: "isfile d (compile_batch_path n)"
  have fin: "finite {m. n \<le> m \<and> isfile d (compile_batch_path m)}"
    by (rule finite_subset [OF _ used_ids_finite [of d]]) auto
  have "{m. n + 1 \<le> m \<and> isfile d (compile_batch_path m)}
          \<subset> {m. n \<le> m \<and> isfile d (compile_batch_path m)}"
    using used by (intro psubsetI) (auto simp: set_eq_iff intro: exI [of _ n])
  then have "card {m. n + 1 \<le> m \<and> isfile d (compile_batch_path m)}
          < card {m. n \<le> m \<and> isfile d (compile_batch_path m)}"
    using fin by (rule psubset_card_mono [rotated])
  then show "((d, n + 1), (d, n))
      \<in> measure (\<lambda>(d, n). card {m. n \<le> m \<and> isfile d (compile_batch_path m)})"
    by simp
qed

declare first_unused.simps [simp del]

lemma first_unused_spec:
  "n \<le> first_unused d n \<and> \<not> isfile d (compile_batch_path (first_unused d n))
   \<and> (\<forall>m. n \<le> m \<and> m < first_unused d n \<longrightarrow> isfile d (compile_batch_path m))"
proof (induction d n rule: first_unused.induct)
  case (1 d n)
  show ?case
  proof (cases "isfile d (compile_batch_path n)")
    case True
    then have eq: "first_unused d n = first_unused d (n + 1)"
      by (simp add: first_unused.simps [of d n])
    have ih: "n + 1 \<le> first_unused d (n + 1)
      \<and> \<not> isfile d (compile_batch_path (first_unused d (n + 1)))
      \<and> (\<forall>m. n + 1 \<le> m \<and> m < first_unused d (n + 1) \<longrightarrow> isfile d (compile_batch_path m))"
      using 1 True by simp
    show ?thesis unfolding eq
    proof (intro conjI allI impI)
      show "n \<le> first_unused d (n + 1)" using ih by simp
      show "\<not> isfile d (compile_batch_path (first_unused d (n + 1)))" using ih by simp
      fix m assume m: "n \<le> m \<and> m < first_unused d (n + 1)"
      show "isfile d (compile_batch_path m)"
      proof (cases "m = n")
        case True then show ?thesis using \<open>isfile d (compile_batch_path n)\<close> by simp
      next
        case False
        then have "n + 1 \<le> m" using m by simp
        then show ?thesis using ih m by blast
      qed
    qed
  next
    case False
    then show ?thesis by (auto simp: first_unused.simps [of d n])
  qed
qed


subsection \<open>Loading what was written\<close>

lemma startswith_iff: "startswith ys xs \<longleftrightarrow> (\<exists>zs. ys = xs @ zs)"
  by (induction ys xs rule: startswith.induct) auto

lemma glob_json_split: "glob_json p \<Longrightarrow> p = splitext_root p @ ''.json''"
proof -
  assume "glob_json p"
  then obtain zs where "rev p = rev ''.json'' @ zs"
    unfolding glob_json_def endswith_def startswith_iff by blast
  then have "p = rev zs @ ''.json''" by (metis rev_append rev_rev_ident)
  then show ?thesis by (simp add: splitext_root_def)
qed

lemma glob_json_batch_path: "glob_json (compile_batch_path n)"
  by (simp add: glob_json_def endswith_def compile_batch_path_def startswith_iff)

lemma splitext_root_inj:
  "glob_json p \<Longrightarrow> glob_json q \<Longrightarrow> splitext_root p = splitext_root q \<Longrightarrow> p = q"
  by (metis glob_json_split)

lemma map_of_fold_update:
  "distinct (map fst xs) \<Longrightarrow> \<forall>q \<in> fst ` set xs. glob_json q \<Longrightarrow> glob_json p \<Longrightarrow>
   map_of (fold (\<lambda>(file_path, content) data.
                   AList.update (splitext_root file_path) content data) xs acc)
     (splitext_root p)
   = (case map_of xs p of None \<Rightarrow> map_of acc (splitext_root p) | Some c \<Rightarrow> Some c)"
proof (induction xs arbitrary: acc)
  case Nil
  then show ?case by simp
next
  case (Cons x xs)
  obtain q c where x: "x = (q, c)" by (cases x)
  have gq: "glob_json q" using Cons.prems(2) x by simp
  have ih: "map_of (fold (\<lambda>(file_path, content) data.
                   AList.update (splitext_root file_path) content data) xs
                   (AList.update (splitext_root q) c acc)) (splitext_root p)
     = (case map_of xs p of None \<Rightarrow> map_of (AList.update (splitext_root q) c acc) (splitext_root p)
        | Some c \<Rightarrow> Some c)"
    using Cons.IH [of "AList.update (splitext_root q) c acc"] Cons.prems by simp
  show ?case
  proof (cases "p = q")
    case True
    then have "map_of xs p = None"
      using Cons.prems(1) x by (simp add: map_of_eq_None_iff)
    then show ?thesis using ih True x by (simp add: update_conv')
  next
    case False
    then have "splitext_root p \<noteq> splitext_root q"
      using splitext_root_inj [OF Cons.prems(3) gq] by blast
    then show ?thesis using ih False x by (simp add: update_conv' split: option.splits)
  qed
qed

lemma map_of_load_data_batches:
  assumes "distinct (map fst d)" "glob_json p"
  shows "map_of (load_data_batches d) (splitext_root p) = map_of d p"
proof -
  let ?js = "filter (\<lambda>(file_path, content). glob_json file_path) d"
  have d: "distinct (map fst ?js)" using assms(1) by (simp add: distinct_map_filter)
  have g: "\<forall>q \<in> fst ` set ?js. glob_json q" by auto
  have m: "map_of ?js p = map_of d p"
    using assms(2) by (induction d) auto
  show ?thesis
    unfolding load_data_batches_def map_of_fold_update [OF d g assms(2)] m
    by (simp split: option.splits)
qed

lemma update_batch_all_loaded:
  assumes "distinct (map fst d)"
    and "map_of d (compile_batch_path n) = Some b"
  shows "\<exists>d'. update_batch_all n ms d = Inr d' \<and> distinct (map fst d')
     \<and> map_of d' (compile_batch_path n) = Some (b\<lparr>credit_memos := credit_memos b @ ms\<rparr>)"
  using assms
proof (induction ms arbitrary: d b)
  case Nil
  then show ?case by simp
next
  case (Cons m ms)
  let ?b = "b\<lparr>credit_memos := credit_memos b @ [m]\<rparr>"
  let ?d = "AList.update (compile_batch_path n) ?b d"
  have u: "update_batch_data n m d = Inr ?d"
    using Cons.prems(2) by (simp add: update_batch_data_def)
  have "distinct (map fst ?d)" using Cons.prems(1) by (simp add: distinct_update)
  moreover have "map_of ?d (compile_batch_path n) = Some ?b" by (simp add: update_conv')
  ultimately obtain d' where "update_batch_all n ms ?d = Inr d'" "distinct (map fst d')"
    "map_of d' (compile_batch_path n) = Some (?b\<lparr>credit_memos := credit_memos ?b @ ms\<rparr>)"
    using Cons.IH [of ?d ?b] by blast
  then show ?case using u by simp
qed

text \<open>
  C5. Round trip: a batch record created by \<open>create_batch_file\<close> and then appended to
  with the credit memo numbers \<open>ms\<close> (for instance 100, then 200) is found again by
  \<open>load_data_batches\<close> under its file name, with the same numbers in the same order and
  with its country and company code unchanged.
\<close>

theorem batch_round_trip:
  assumes "distinct (map fst d)"
    and "create_batch_file ctry cocd d = (n, d1)"
  shows "\<exists>d2. update_batch_all n ms d1 = Inr d2
     \<and> map_of (load_data_batches d2) (splitext_root (compile_batch_path n))
         = Some \<lparr>country = ctry, company_code = cocd, credit_memos = ms\<rparr>"
proof -
  let ?b = "\<lparr>country = ctry, company_code = cocd, credit_memos = []\<rparr>"
  have d1: "d1 = AList.update (compile_batch_path n) ?b d"
    using assms(2) by (auto simp: create_batch_file_def Let_def)
  have "distinct (map fst d1)" using assms(1) d1 by (simp add: distinct_update)
  moreover have "map_of d1 (compile_batch_path n) = Some ?b" using d1 by (simp add: update_conv')
  ultimately obtain d2 where d2: "update_batch_all n ms d1 = Inr d2" "distinct (map fst d2)"
    "map_of d2 (compile_batch_path n) = Some (?b\<lparr>credit_memos := credit_memos ?b @ ms\<rparr>)"
    using update_batch_all_loaded [of d1 n ?b ms] by blast
  have "map_of (load_data_batches d2) (splitext_root (compile_batch_path n))
      = map_of d2 (compile_batch_path n)"
    by (rule map_of_load_data_batches [OF d2(2) glob_json_batch_path])
  then show ?thesis using d2 by simp
qed

theorem batch_round_trip_witness:
  "distinct (map fst ([] :: data_dir))
   \<and> create_batch_file ''Austria'' ''1001'' [] = (1, [(''batch_001.json'',
        \<lparr>country = ''Austria'', company_code = ''1001'', credit_memos = []\<rparr>)])
   \<and> (\<exists>d2. update_batch_all 1 [100, 200] [(''batch_001.json'',
        \<lparr>country = ''Austria'', company_code = ''1001'', credit_memos = []\<rparr>)] = Inr d2
     \<and> map_of (load_data_batches d2) (splitext_root (compile_batch_path 1))
         = Some \<lparr>country = ''Austria'', company_code = ''1001'', credit_memos = [100, 200]\<rparr>)"
proof -
  have c: "create_batch_file ''Austria'' ''1001'' [] = (1, [(''batch_001.json'',
        \<lparr>country = ''Austria'', company_code = ''1001'', credit_memos = []\<rparr>)])"
    by code_simp
  show ?thesis
    using batch_round_trip [of "[]", OF _ c, of "[100, 200]"] c by simp
qed

subsection \<open>Batch ids\<close>

text \<open>
  C6 (as amended). \<open>create_batch_file\<close> returns the smallest positive index with no batch
  file, and writes that file. The next index returned is strictly greater as long as the
  batch files present after the creation are all still present; nothing more is said
  about the order of ids once a batch file has been removed.
\<close>

theorem create_batch_file_first_unused:
  assumes "create_batch_file ctry cocd d = (n, d1)"
  shows "1 \<le> n \<and> \<not> isfile d (compile_batch_path n)
     \<and> (\<forall>m. 1 \<le> m \<and> m < n \<longrightarrow> isfile d (compile_batch_path m))
     \<and> isfile d1 (compile_batch_path n)
     \<and> (\<forall>d2 ctry2 cocd2 n2 d3.
          (\<forall>m. isfile d1 (compile_batch_path m) \<longrightarrow> isfile d2 (compile_batch_path m))
          \<and> create_batch_file ctry2 cocd2 d2 = (n2, d3) \<longrightarrow> n < n2)"
proof -
  have n: "n = first_unused d 1" and d1: "d1 = AList.update (compile_batch_path n)
      \<lparr>country = ctry, company_code = cocd, credit_memos = []\<rparr> d"
    using assms by (auto simp: create_batch_file_def Let_def)
  note spec = first_unused_spec [of 1 d, folded n]
  have made: "isfile d1 (compile_batch_path n)" by (simp add: d1 isfile_def update_conv')
  have kept: "isfile d1 (compile_batch_path m)" if "isfile d (compile_batch_path m)" for m
    using that by (simp add: d1 isfile_def update_conv')
  have later: "n < n2"
    if sub: "\<forall>m. isfile d1 (compile_batch_path m) \<longrightarrow> isfile d2 (compile_batch_path m)"
      and c2: "create_batch_file ctry2 cocd2 d2 = (n2, d3)" for d2 ctry2 cocd2 n2 d3
  proof (rule ccontr)
    assume "\<not> n < n2"
    have n2: "n2 = first_unused d2 1" using c2 by (auto simp: create_batch_file_def Let_def)
    note spec2 = first_unused_spec [of 1 d2, folded n2]
    have "isfile d1 (compile_batch_path n2)"
    proof (cases "n2 = n")
      case True then show ?thesis using made by simp
    next
      case False
      then have "1 \<le> n2 \<and> n2 < n" using \<open>\<not> n < n2\<close> spec2 by simp
      then show ?thesis using spec kept by blast
    qed
    then show False using sub spec2 by blast
  qed
  show ?thesis using spec made later by blast
qed


theorem create_batch_file_first_unused_witness:
  "create_batch_file ''Austria'' ''1001'' one_batch_dir
     = (2, one_batch_dir @ [(''batch_002.json'',
          \<lparr>country = ''Austria'', company_code = ''1001'', credit_memos = []\<rparr>)])
   \<and> \<not> isfile one_batch_dir (compile_batch_path 2)
   \<and> isfile one_batch_dir (compile_batch_path 1)
   \<and> isfile (one_batch_dir @ [(''batch_002.json'',
          \<lparr>country = ''Austria'', company_code = ''1001'', credit_memos = []\<rparr>)])
        (compile_batch_path 2)
   \<and> create_batch_file ''Austria'' ''1001'' (one_batch_dir @ [(''batch_002.json'',
          \<lparr>country = ''Austria'', company_code = ''1001'', credit_memos = []\<rparr>)])
     = (3, one_batch_dir @ [(''batch_002.json'',
          \<lparr>country = ''Austria'', company_code = ''1001'', credit_memos = []\<rparr>),
        (''batch_003.json'',
          \<lparr>country = ''Austria'', company_code = ''1001'', credit_memos = []\<rparr>)])
   \<and> (2::nat) < 3"
proof -
  let ?d1 = "one_batch_dir @ [(''batch_002.json'',
          \<lparr>country = ''Austria'', company_code = ''1001'', credit_memos = []\<rparr>)]"
  let ?d2 = "?d1 @ [(''batch_003.json'',
          \<lparr>country = ''Austria'', company_code = ''1001'', credit_memos = []\<rparr>)]"
  have c1: "create_batch_file ''Austria'' ''1001'' one_batch_dir = (2, ?d1)"
    by code_simp
  have c2: "create_batch_file ''Austria'' ''1001'' ?d1 = (3, ?d2)"
    by code_simp
  note t = create_batch_file_first_unused [OF c1]
  have "\<not> isfile one_batch_dir (compile_batch_path 2)" using t by blast
  moreover have "isfile one_batch_dir (compile_batch_path 1)" using t by simp
  moreover have "isfile ?d1 (compile_batch_path 2)" using t by blast
  moreover have "(2::nat) < 3" using t c2 by blast
  ultimately show ?thesis using c1 c2 by simp
qed

text \<open>
  The claim as stated fails: after the batch files 1 and 2 have been created and the
  finalization service has removed batch 1, the next creation returns the id 1 again,
  which is not greater than the id 2 handed out before.
\<close>

theorem create_batch_file_reuses_removed_id:
  "fst (create_batch_file ''Austria'' ''1001'' []) = 1
   \<and> fst (create_batch_file ''Austria'' ''1001''
            (snd (create_batch_file ''Austria'' ''1001'' []))) = 2
   \<and> fst (create_batch_file ''Austria'' ''1001''
            (fst (remove_data_batch ''batch_001''
               (snd (create_batch_file ''Austria'' ''1001''
                  (snd (create_batch_file ''Austria'' ''1001'' []))), [])))) = 1"
  by code_simp

section \<open>Running the program on a script\<close>

text \<open>What each call of the scripted GUI returns, and the definitions a run unfolds.\<close>

lemma scripted_sel:
  "gui_send_vkey (scripted script) = (\<lambda>k. Suc)"
  "gui_active_wnd_type (scripted script) = (\<lambda>s. sc_type (script s))"
  "gui_active_wnd_text (scripted script) = (\<lambda>s. sc_title (script s))"
  "gui_dialog_children (scripted script) = (\<lambda>s. sc_dialog (script s))"
  "gui_wnd_children (scripted script) = (\<lambda>s. sc_buttons (script s))"
  "gui_press_child (scripted script) = (\<lambda>i j. Suc)"
  "gui_set_text (scripted script) = (\<lambda>name val. Suc)"
  "gui_get_text (scripted script) = (\<lambda>name s. sc_field (script s))"
  "gui_press (scripted script) = (\<lambda>name. Suc)"
  "gui_select (scripted script) = (\<lambda>name. Suc)"
  "gui_sbar_text (scripted script) = (\<lambda>s. sc_sbar (script s))"
  "gui_sbar_msg_type (scripted script) = (\<lambda>s. sc_sbar_type (script s))"
  "gui_start_transaction (scripted script) = (\<lambda>name. Suc)"
  "gui_end_transaction (scripted script) = Suc"
  "gui_scroll_to_max (scripted script) = Suc"
  "gui_labels (scripted script) = (\<lambda>s. sc_labels (script s))"
  "gui_tree_top_node (scripted script) = (\<lambda>s. case sc_tree (script s) of [] \<Rightarrow> [] | (k, n) # rest \<Rightarrow> k)"
  "gui_tree_item_text (scripted script) = (\<lambda>node s. fst (tree_lookup (script s) node))"
  "gui_tree_sub_nodes (scripted script) = (\<lambda>node s. fst (snd (tree_lookup (script s) node)))"
  "gui_tree_next_node (scripted script) = (\<lambda>node s. snd (snd (tree_lookup (script s) node)))"
  "gui_tool_bar_children (scripted script) = (\<lambda>s. sc_toolbar (script s))"
  "gui_press_tool_bar_child (scripted script) = (\<lambda>i. Suc)"
  "gui_grid_row_count (scripted script) = (\<lambda>s. length (sc_grid (script s)))"
  "gui_grid_cell_value (scripted script) = (\<lambda>i col s. if i < length (sc_grid (script s)) then sc_grid (script s) ! i else [])"
  "gui_grid_select_cell (scripted script) = (\<lambda>i col. Suc)"
  "gui_grid_double_click (scripted script) = Suc"
  "gui_table_type (scripted script) = (\<lambda>s. ''GuiTableControl'')"
  "gui_table_columns (scripted script) = (\<lambda>s. sc_table_cols (script s))"
  "gui_table_cell_text (scripted script) = (\<lambda>r c s. if r < length (sc_table_rows (script s)) \<and> c < length (sc_table_rows (script s) ! r) then fst (sc_table_rows (script s) ! r ! c) else [])"
  "gui_table_cell_selected (scripted script) = (\<lambda>r c s. r < length (sc_table_rows (script s)) \<and> c < length (sc_table_rows (script s) ! r) \<and> snd (sc_table_rows (script s) ! r ! c))"
  "gui_table_visible_row_count (scripted script) = (\<lambda>s. length (sc_table_rows (script s)))"
  "gui_dialog_child_text (scripted script) = (\<lambda>i s. if i < length (sc_dialog (script s)) then sc_dialog (script s) ! i else [])"
  "gui_exists (scripted script) = (\<lambda>name s. True)"
  "gui_tab_names (scripted script) = (\<lambda>s. sc_tabs (script s))"
  "gui_select_tab (scripted script) = (\<lambda>i. Suc)"
  "gui_set_selected (scripted script) = (\<lambda>name b. Suc)"
  "gui_partner_rows (scripted script) = (\<lambda>s. sc_partners (script s))"
  "gui_set_partner (scripted script) = (\<lambda>i key val. Suc)"
  "gui_attach_dialog (scripted script) = (\<lambda>folder file_name s. (True, Suc s))"
  "gui_sap_event (scripted script) = (\<lambda>ev. Suc)"
  "gui_close_connection (scripted script) = Suc"
  "os_isfile (scripted script) = (\<lambda>p. True)"
  "py_float (scripted script) = parse_decimal"
  "py_int (scripted script) = parse_int"
  "py_str_float (scripted script) = show_decimal"
  by (simp_all add: scripted_def)

lemmas toy_defs = scripted_sel main_screen_def info_dialog_def volumes_screen_def
  documents_dialog_def yellow_def tree_lookup_def inbox_def parse_decimal_def parse_int_def
  show_decimal_def init_world_def started_def conditions_screen_def settled_result_def
  value_gate_result_def display_only_result_def closed_status_result_def
  threshold_result_def zero_accruals_result_def checked_conditions_screen_def
  example_approvers_def example_rules_def example_att_path_def

lemma str_nat_digit: "n < 10 \<Longrightarrow> str_nat n = [digit_char n]"
  by (simp add: str_nat.simps [of n])

lemma str_nat_step: "10 \<le> n \<Longrightarrow> str_nat n = str_nat (n div 10) @ [digit_char (n mod 10)]"
  by (simp add: str_nat.simps [of n])

lemma replicate_num: "replicate (numeral k) x = x # replicate (pred_numeral k) x"
  by (simp add: numeral_eq_Suc)

lemmas py_defs = strip_def is_space_def endswith_def str_int_def is_digit_def is_numeric_def isnumeric_def
  nat_of_digits_def strip_chars_def last_word_def is_alpha_def isalpha_def quoted_def
  digit_char_def str_nat_digit str_nat_step zfill_def replicate_num

lemmas vbo2_defs = press_cancel_def press_save_def press_back_def press_enter_def
  dialog_text_def get_dialog_text_def is_popup_dialog_def close_popup_dialog_def
  set_agreement_number_def clear_input_field_def press_settle_def display_sales_volume_def
  convert_amount_def scroll_to_bottom_def get_column_index_def exists_unchecked_def
  reopen_agreement_def get_document_number_def go_to_start_window_def find_messages_def
  find_status_def vbo2_find_def unpack2_def collect_label_def get_sales_volumes_def
  scales_checked_def get_agreement_status_def empty_result_def settle_not_opened_def
  settle_failed_def settle_create_def cap_threshold_def settle_opened_def settle_gui_def
  get_accounting_document.simps reopen_loop.simps cancel_popups.simps

lemmas va02_defs = va02_get_dialog_text_def va02_is_popup_dialog_def is_error_message_def
  set_order_number_def va02_clear_input_field_def press_search_def get_tab_def
  display_header_details_def next_partner_row_def add_entry_def open_order_def
  toggle_invoice_printing_def add_approvers_def is_sep_def path_split_def
  format_sap_path_def attach_failed_msg_def attach_file_def change_opened_order_def
  change_sales_order_def dismiss_order_dialogs.simps

lemmas controller_defs = dump_data_def py_str_opt_def log_result_def record_result_def
  amend_order_def settle_item_def item_amend_def item_body_def process_item_def new_row_def
  process_agreements_def update_batch_data_def compile_batch_path_def
  create_batch_file_def first_unused.simps isfile_def one_batch_dir_def

lemmas world_defs = log_msg_def closed_msg_def unbound_msg_def vbo2_start_def vbo2_close_def
  settle_agreement_def va02_start_def va02_close_def so01_start_def so01_close_def

section \<open>Sessions\<close>

text \<open>
  C7 (as amended). Invoked while the session is closed, \<open>settle_agreement\<close> (VBO2) and
  \<open>change_sales_order\<close> (VA02) raise \<open>TransactionClosedError\<close> and leave the world as
  it is; in SO01 it is \<open>get_item_table\<close> that raises it. \<open>process_workflow\<close> has no
  such check.
\<close>

theorem closed_session_raises:
  "(vbo2_sess (vbo2 w) = None \<longrightarrow>
      settle_agreement E num thresh accept_inactive_accs accept_outdated_vols w
        = Some (Inl (TransactionClosedError closed_msg), w))
   \<and> (va02_sess (va02 w) = None \<longrightarrow>
      change_sales_order E order_num print_invoice approvers att_path w
        = Some (Inl (TransactionClosedError closed_msg), w))
   \<and> (so01_sess (so01 w) = None \<longrightarrow>
      get_item_table w = Inl (TransactionClosedError closed_msg))"
  by (simp add: settle_agreement_def change_sales_order_def get_item_table_def)

theorem closed_session_raises_witness:
  "vbo2_sess (vbo2 (init_world (0::nat) [])) = None
   \<and> settle_agreement (scripted settled_script) 5001 60 True False (init_world 0 [])
       = Some (Inl (TransactionClosedError closed_msg), init_world 0 [])
   \<and> va02_sess (va02 (init_world (0::nat) [])) = None
   \<and> change_sales_order (scripted settled_script) 123456789 (Some False) None None
         (init_world 0 [])
       = Some (Inl (TransactionClosedError closed_msg), init_world 0 [])
   \<and> so01_sess (so01 (init_world (0::nat) [])) = None
   \<and> get_item_table (init_world (0::nat) []) = Inl (TransactionClosedError closed_msg)"
proof -
  have c: "vbo2_sess (vbo2 (init_world (0::nat) [])) = None"
    "va02_sess (va02 (init_world (0::nat) [])) = None"
    "so01_sess (so01 (init_world (0::nat) [])) = None"
    by (simp_all add: init_world_def)
  show ?thesis
    using c closed_session_raises [of "init_world (0::nat) []" "scripted settled_script"
        5001 60 True False 123456789 "Some False" None None]
    by simp
qed

text \<open>
  The claim as stated fails for SO01: with the session closed, \<open>process_workflow\<close> scans
  the item table it is given and returns \<open>False\<close> when no title matches.
\<close>

theorem process_workflow_on_closed_session:
  "so01_sess (so01 (init_world (1::nat) [])) = None
   \<and> process_workflow (scripted workflow_script) (GuiObj 1 item_table_id) ''777''
         (init_world 1 [])
       = Some (Inr False, init_world 2 [])"
  by (simp add: process_workflow_def workflow_rows.simps toy_defs workflow_script_def)

lemma vbo2_start_open: "vbo2_sess (vbo2 w) \<noteq> None \<Longrightarrow> vbo2_start E h w = (Inr (), w)"
  by (simp add: vbo2_start_def)

lemma va02_start_open: "va02_sess (va02 w) \<noteq> None \<Longrightarrow> va02_start E h w = (Inr (), w)"
  by (simp add: va02_start_def)

lemma so01_start_open: "so01_sess (so01 w) \<noteq> None \<Longrightarrow> so01_start E h w = (Inr (), w)"
  by (simp add: so01_start_def)

lemma vbo2_start_bound: "vbo2_sess (vbo2 (snd (vbo2_start E (Some s) w))) \<noteq> None"
  by (simp add: vbo2_start_def log_msg_def Let_def)

lemma va02_start_bound: "va02_sess (va02 (snd (va02_start E (Some s) w))) \<noteq> None"
  by (simp add: va02_start_def)

lemma so01_start_bound: "so01_sess (so01 (snd (so01_start E (Some s) w))) \<noteq> None"
  by (simp add: so01_start_def)

lemma vbo2_start_twice:
  "vbo2_start E h (snd (vbo2_start E (Some s) w)) = (Inr (), snd (vbo2_start E (Some s) w))"
  by (rule vbo2_start_open [OF vbo2_start_bound])

lemma va02_start_twice:
  "va02_start E h (snd (va02_start E (Some s) w)) = (Inr (), snd (va02_start E (Some s) w))"
  by (rule va02_start_open [OF va02_start_bound])

lemma so01_start_twice:
  "so01_start E h (snd (so01_start E (Some s) w)) = (Inr (), snd (so01_start E (Some s) w))"
  by (rule so01_start_open [OF so01_start_bound])

lemma vbo2_start_unbound:
  "vbo2_sess (vbo2 w) = None \<Longrightarrow> vbo2_start E None w = (Inl (UnboundLocalError unbound_msg), w)"
  by (simp add: vbo2_start_def)

lemma va02_start_unbound:
  "va02_sess (va02 w) = None \<Longrightarrow> va02_start E None w = (Inl (UnboundLocalError unbound_msg), w)"
  by (simp add: va02_start_def)

lemma so01_start_unbound:
  "so01_sess (so01 w) = None \<Longrightarrow> so01_start E None w = (Inl (UnboundLocalError unbound_msg), w)"
  by (simp add: so01_start_def)

text \<open>
  C8 (as amended). \<open>start\<close> of each session is a no-op while the session is open, for
  every handle, a null handle included; called again after a start it changes nothing;
  and it raises \<open>UnboundLocalError\<close> on a null handle while the session is closed.
\<close>

theorem start_idempotent:
  "(vbo2_sess (vbo2 w) \<noteq> None \<longrightarrow> vbo2_start E h w = (Inr (), w))
   \<and> (va02_sess (va02 w) \<noteq> None \<longrightarrow> va02_start E h w = (Inr (), w))
   \<and> (so01_sess (so01 w) \<noteq> None \<longrightarrow> so01_start E h w = (Inr (), w))
   \<and> vbo2_start E h (snd (vbo2_start E (Some s) w)) = (Inr (), snd (vbo2_start E (Some s) w))
   \<and> va02_start E h (snd (va02_start E (Some s) w)) = (Inr (), snd (va02_start E (Some s) w))
   \<and> so01_start E h (snd (so01_start E (Some s) w)) = (Inr (), snd (so01_start E (Some s) w))
   \<and> (vbo2_sess (vbo2 w) = None \<longrightarrow>
        vbo2_start E None w = (Inl (UnboundLocalError unbound_msg), w))
   \<and> (va02_sess (va02 w) = None \<longrightarrow>
        va02_start E None w = (Inl (UnboundLocalError unbound_msg), w))
   \<and> (so01_sess (so01 w) = None \<longrightarrow>
        so01_start E None w = (Inl (UnboundLocalError unbound_msg), w))"
  by (intro conjI impI vbo2_start_open va02_start_open so01_start_open
      vbo2_start_twice va02_start_twice so01_start_twice
      vbo2_start_unbound va02_start_unbound so01_start_unbound)

theorem start_idempotent_witness:
  "vbo2_sess (vbo2 (snd (vbo2_start (scripted settled_script) (Some 1) (init_world 0 [])))) \<noteq> None
   \<and> vbo2_start (scripted settled_script) None
         (snd (vbo2_start (scripted settled_script) (Some 1) (init_world 0 [])))
       = (Inr (), snd (vbo2_start (scripted settled_script) (Some 1) (init_world 0 [])))
   \<and> va02_sess (va02 (snd (va02_start (scripted settled_script) (Some 1) (init_world 0 [])))) \<noteq> None
   \<and> va02_start (scripted settled_script) (Some 1)
         (snd (va02_start (scripted settled_script) (Some 1) (init_world 0 [])))
       = (Inr (), snd (va02_start (scripted settled_script) (Some 1) (init_world 0 [])))
   \<and> so01_sess (so01 (snd (so01_start (scripted workflow_script) (Some 1) (init_world 0 [])))) \<noteq> None
   \<and> so01_start (scripted workflow_script) (Some 1)
         (snd (so01_start (scripted workflow_script) (Some 1) (init_world 0 [])))
       = (Inr (), snd (so01_start (scripted workflow_script) (Some 1) (init_world 0 [])))
   \<and> vbo2_sess (vbo2 (init_world (0::nat) [])) = None
   \<and> vbo2_start (scripted settled_script) None (init_world 0 [])
       = (Inl (UnboundLocalError unbound_msg), init_world 0 [])
   \<and> va02_sess (va02 (init_world (0::nat) [])) = None
   \<and> va02_start (scripted settled_script) None (init_world 0 [])
       = (Inl (UnboundLocalError unbound_msg), init_world 0 [])
   \<and> so01_sess (so01 (init_world (0::nat) [])) = None
   \<and> so01_start (scripted workflow_script) None (init_world 0 [])
       = (Inl (UnboundLocalError unbound_msg), init_world 0 [])"
proof -
  have o: "vbo2_sess (vbo2 (snd (vbo2_start (scripted settled_script) (Some 1)
                                   (init_world 0 [])))) \<noteq> None"
    "va02_sess (va02 (snd (va02_start (scripted settled_script) (Some 1)
                                   (init_world 0 [])))) \<noteq> None"
    "so01_sess (so01 (snd (so01_start (scripted workflow_script) (Some 1)
                                   (init_world 0 [])))) \<noteq> None"
    by (rule vbo2_start_bound va02_start_bound so01_start_bound)+
  have c: "vbo2_sess (vbo2 (init_world (0::nat) [])) = None"
    "va02_sess (va02 (init_world (0::nat) [])) = None"
    "so01_sess (so01 (init_world (0::nat) [])) = None"
    by (simp_all add: init_world_def)
  note t1 = start_idempotent [of "snd (vbo2_start (scripted settled_script) (Some 1)
      (init_world 0 []))" "scripted settled_script" None]
  note t2 = start_idempotent [of "snd (va02_start (scripted settled_script) (Some 1)
      (init_world 0 []))" "scripted settled_script" "Some 1"]
  note t3 = start_idempotent [of "snd (so01_start (scripted workflow_script) (Some 1)
      (init_world 0 []))" "scripted workflow_script" "Some 1"]
  note t4 = start_idempotent [of "init_world (0::nat) []" "scripted settled_script" None]
  note t5 = start_idempotent [of "init_world (0::nat) []" "scripted workflow_script" None]
  note a1 = t1 [THEN conjunct1, rule_format, OF o(1)]
  note a2 = t2 [THEN conjunct2, THEN conjunct1, rule_format, OF o(2)]
  note a3 = t3 [THEN conjunct2, THEN conjunct2, THEN conjunct1, rule_format, OF o(3)]
  note a4 = t4 [THEN conjunct2, THEN conjunct2, THEN conjunct2, THEN conjunct2, THEN conjunct2,
      THEN conjunct2, THEN conjunct1, rule_format, OF c(1)]
  note a5 = t4 [THEN conjunct2, THEN conjunct2, THEN conjunct2, THEN conjunct2, THEN conjunct2,
      THEN conjunct2, THEN conjunct2, THEN conjunct1, rule_format, OF c(2)]
  note a6 = t5 [THEN conjunct2, THEN conjunct2, THEN conjunct2, THEN conjunct2, THEN conjunct2,
      THEN conjunct2, THEN conjunct2, THEN conjunct2, rule_format, OF c(3)]
  show ?thesis
    by (intro conjI) (rule o c a1 a2 a3 a4 a5 a6)+
qed

text \<open>
  The claim as stated fails on an open session: \<open>start\<close> with a null handle returns
  without an error there, in each of the three modules.
\<close>

theorem start_null_handle_on_open_session:
  "fst (vbo2_start (scripted settled_script) None
          (snd (vbo2_start (scripted settled_script) (Some 1) (init_world 0 [])))) = Inr ()
   \<and> fst (va02_start (scripted settled_script) None
          (snd (va02_start (scripted settled_script) (Some 1) (init_world 0 [])))) = Inr ()
   \<and> fst (so01_start (scripted workflow_script) None
          (snd (so01_start (scripted workflow_script) (Some 1) (init_world 0 [])))) = Inr ()"
  by (simp add: vbo2_start_def va02_start_def so01_start_def log_msg_def init_world_def)

section \<open>Settlement results\<close>

subsection \<open>The shape of every result\<close>

lemma settle_failed_shape:
  "settle_failed E r m g = Some (Inr r', g')
   \<Longrightarrow> r' = r\<lparr>message_type := Some ''E'', message := Some m\<rparr>"
  by (auto simp: settle_failed_def Let_def)

lemma settle_create_shape:
  assumes "settle_create E r0 g = Some (Inr r, g')"
  shows "(document_type r = Some ''memo_request'' \<and> message_type r = Some ''I''
            \<and> open_value r = open_value r0)
       \<or> (document_type r = document_type r0 \<and> document_number r = document_number r0
            \<and> message_type r = Some ''E'' \<and> open_value r = open_value r0)"
proof (cases "is_popup_dialog E (Some ''A credit memo request was created for settlement'')
                (press_settle E g)")
  case True
  then show ?thesis using assms
    by (auto simp: settle_create_def Let_def
        split: option.splits sum.splits prod.splits if_splits)
next
  case False
  then obtain rr m gg where "settle_failed E rr m gg = Some (Inr r, g')"
    and "document_type rr = document_type r0" "document_number rr = document_number r0"
    and "open_value rr = open_value r0"
    using assms
    by (auto simp: settle_create_def Let_def split: sum.splits if_splits)
  then show ?thesis by (auto dest: settle_failed_shape)
qed

lemma settle_opened_shape:
  assumes "settle_opened E t g = Some (Inr r, g')"
  shows "\<exists>v. open_value r = Some v
     \<and> ((document_type r = Some ''credit_memo'' \<and> message_type r = Some ''E'')
        \<or> (document_type r = None \<and> document_number r = None \<and> message_type r = Some ''E'')
        \<or> (v = 0 \<and> document_type r = Some ''memo_request'' \<and> message_type r = Some ''I''))"
proof -
  obtain v accr g1 where sv: "get_sales_volumes E g = (Inr (v, accr), g1)"
    using assms by (auto simp: settle_opened_def split: prod.splits sum.splits)
  let ?r0 = "empty_result\<lparr>open_value := Some v, open_accruals := Some accr\<rparr>"
  have r0: "document_type ?r0 = None" "document_number ?r0 = None" "open_value ?r0 = Some v"
    by (simp_all add: empty_result_def)
  consider (closed) "get_agreement_status E g1 = ''C'' \<or> get_agreement_status E g1 = ''D''"
    | (gate) "\<not> (get_agreement_status E g1 = ''C'' \<or> get_agreement_status E g1 = ''D'')" "v \<noteq> 0"
    | (zero) "\<not> (get_agreement_status E g1 = ''C'' \<or> get_agreement_status E g1 = ''D'')" "v = 0"
    by blast
  then show ?thesis
  proof cases
    case closed
    then show ?thesis using assms sv
      by (auto simp: settle_opened_def Let_def empty_result_def
          split: option.splits sum.splits prod.splits)
  next
    case gate
    then show ?thesis using assms sv
      by (auto simp: settle_opened_def Let_def empty_result_def)
  next
    case zero
    then have "settle_create E ?r0 g' = Some (Inr r, g')
        \<or> (\<exists>gg. settle_create E ?r0 gg = Some (Inr r, g'))
        \<or> (document_type r = None \<and> document_number r = None \<and> message_type r = Some ''E''
             \<and> open_value r = Some v)"
      using assms sv
      by (auto simp: settle_opened_def Let_def empty_result_def
          split: sum.splits prod.splits if_splits)
    then consider gg where "settle_create E ?r0 gg = Some (Inr r, g')"
      | "document_type r = None \<and> document_number r = None \<and> message_type r = Some ''E''
             \<and> open_value r = Some v"
      by blast
    then show ?thesis
    proof cases
      case 1
      from settle_create_shape [OF 1] show ?thesis using r0 zero(2) by auto
    next
      case 2
      then show ?thesis by simp
    qed
  qed
qed

lemma settle_not_opened_shape:
  assumes "settle_not_opened E msg_type msg g = Some (Inr r, g')"
  shows "(document_type r = Some ''credit_memo'' \<and> message_type r = Some ''W'')
       \<or> (open_value r = None \<and> document_type r = None \<and> document_number r = None)"
  using assms
  by (auto simp: settle_not_opened_def Let_def empty_result_def
      split: if_splits option.splits sum.splits prod.splits)

lemma settle_gui_shape:
  assumes "settle_gui E num t a b g = Some (Inr r, g')"
  shows "(open_value r = None \<and> document_type r = None \<and> document_number r = None)
       \<or> (document_type r = Some ''credit_memo'' \<and> message_type r = Some ''W'')
       \<or> (document_type r = Some ''credit_memo'' \<and> message_type r = Some ''E'')
       \<or> (document_type r = None \<and> document_number r = None \<and> message_type r = Some ''E'')
       \<or> (open_value r = Some 0 \<and> document_type r = Some ''memo_request''
            \<and> message_type r = Some ''I'')"
proof -
  from assms consider msg_type msg gg where "settle_not_opened E msg_type msg gg = Some (Inr r, g')"
    | gg where "settle_opened E t gg = Some (Inr r, g')"
    by (auto simp: settle_gui_def split: prod.splits sum.splits if_splits)
  then show ?thesis
  proof cases
    case 1
    from settle_not_opened_shape [OF 1] show ?thesis by blast
  next
    case 2
    from settle_opened_shape [OF 2] show ?thesis by auto
  qed
qed

lemma settle_agreement_shape:
  assumes "settle_agreement E num t a b w = Some (Inr r, w')"
  shows "(open_value r = None \<and> document_type r = None \<and> document_number r = None)
       \<or> (document_type r = Some ''credit_memo'' \<and> message_type r = Some ''W'')
       \<or> (document_type r = Some ''credit_memo'' \<and> message_type r = Some ''E'')
       \<or> (document_type r = None \<and> document_number r = None \<and> message_type r = Some ''E'')
       \<or> (open_value r = Some 0 \<and> document_type r = Some ''memo_request''
            \<and> message_type r = Some ''I'')"
proof -
  from assms obtain g' where "settle_gui E num t a b (gui w) = Some (Inr r, g')"
    by (auto simp: settle_agreement_def split: if_splits option.splits)
  then show ?thesis by (rule settle_gui_shape)
qed

lemma memo_types_differ: "''credit_memo'' \<noteq> ''memo_request''"
  by simp

subsection \<open>The value gate\<close>

lemma value_gate:
  assumes "get_sales_volumes E g = (Inr (v, accr), g1)" and "v \<noteq> 0"
    and "get_agreement_status E g1 \<noteq> ''C''" and "get_agreement_status E g1 \<noteq> ''D''"
  shows "settle_opened E t g
     = Some (Inr (empty_result\<lparr>open_value := Some v, open_accruals := Some accr,
                    message := Some ''Could not settle the agreement! Open value is not 0 EUR.'',
                    message_type := Some ''E''\<rparr>),
             go_to_start_window E g1)"
  using assms by (simp add: settle_opened_def Let_def)

text \<open>
  C1 (as amended). A settlement that returns with an open value other than zero never
  carries a credit memo request. Its result either reports an existing credit memo
  (document type \<open>credit_memo\<close>, on the display-only path with message type W or on the
  closed-status path with message type E), or has no document number, no document type
  and message type E. The second is what the value gate returns: once the agreement is
  open with a status other than C and D, an open value other than zero ends the
  settlement with that error.
\<close>

theorem open_value_not_zero:
  "(settle_agreement E num t a b w = Some (Inr r, w') \<and> open_value r = Some v \<and> v \<noteq> 0
      \<longrightarrow> document_type r \<noteq> Some ''memo_request''
          \<and> ((document_type r = Some ''credit_memo''
                \<and> (message_type r = Some ''W'' \<or> message_type r = Some ''E''))
             \<or> (document_number r = None \<and> document_type r = None
                \<and> message_type r = Some ''E'')))
   \<and> (get_sales_volumes E g = (Inr (v, accr), g1) \<and> v \<noteq> 0
       \<and> get_agreement_status E g1 \<noteq> ''C'' \<and> get_agreement_status E g1 \<noteq> ''D''
      \<longrightarrow> settle_opened E t g
          = Some (Inr (empty_result\<lparr>open_value := Some v, open_accruals := Some accr,
                    message := Some ''Could not settle the agreement! Open value is not 0 EUR.'',
                    message_type := Some ''E''\<rparr>),
                  go_to_start_window E g1))"
proof (intro conjI impI)
  assume h: "settle_agreement E num t a b w = Some (Inr r, w') \<and> open_value r = Some v \<and> v \<noteq> 0"
  from settle_agreement_shape [of E num t a b w r w'] h
  have s: "(document_type r = Some ''credit_memo'' \<and> message_type r = Some ''W'')
       \<or> (document_type r = Some ''credit_memo'' \<and> message_type r = Some ''E'')
       \<or> (document_type r = None \<and> document_number r = None \<and> message_type r = Some ''E'')"
    by auto
  then show "document_type r \<noteq> Some ''memo_request''"
    using memo_types_differ by auto
  from s show "(document_type r = Some ''credit_memo''
                \<and> (message_type r = Some ''W'' \<or> message_type r = Some ''E''))
             \<or> (document_number r = None \<and> document_type r = None
                \<and> message_type r = Some ''E'')"
    by blast
next
  assume "get_sales_volumes E g = (Inr (v, accr), g1) \<and> v \<noteq> 0
       \<and> get_agreement_status E g1 \<noteq> ''C'' \<and> get_agreement_status E g1 \<noteq> ''D''"
  then have "get_sales_volumes E g = (Inr (v, accr), g1)" "v \<noteq> 0"
    "get_agreement_status E g1 \<noteq> ''C''" "get_agreement_status E g1 \<noteq> ''D''"
    by simp_all
  then show "settle_opened E t g
          = Some (Inr (empty_result\<lparr>open_value := Some v, open_accruals := Some accr,
                    message := Some ''Could not settle the agreement! Open value is not 0 EUR.'',
                    message_type := Some ''E''\<rparr>),
                  go_to_start_window E g1)"
    by (rule value_gate)
qed

theorem open_value_not_zero_witness:
  "settle_agreement (scripted value_script) 5001 60 True False (started value_script)
     = Some (Inr value_gate_result, (started value_script)\<lparr>gui := 8\<rparr>)
   \<and> open_value value_gate_result = Some 5
   \<and> document_type value_gate_result \<noteq> Some ''memo_request''
   \<and> document_number value_gate_result = None
   \<and> message_type value_gate_result = Some ''E''
   \<and> get_sales_volumes (scripted value_script) 3 = (Inr (5, 0), 6)
   \<and> get_agreement_status (scripted value_script) 6 = ''A''
   \<and> settle_opened (scripted value_script) 60 3 = Some (Inr value_gate_result, 8)"
proof -
  have run: "settle_agreement (scripted value_script) 5001 60 True False (started value_script)
     = Some (Inr value_gate_result, (started value_script)\<lparr>gui := 8\<rparr>)"
    by (simp add: toy_defs py_defs vbo2_defs world_defs value_script_def)
  have ov: "open_value value_gate_result = Some 5"
    and dn: "document_number value_gate_result = None"
    and mt: "message_type value_gate_result = Some ''E''"
    by (simp_all add: value_gate_result_def)
  have sv: "get_sales_volumes (scripted value_script) 3 = (Inr (5, 0), 6)"
    by (simp add: toy_defs py_defs vbo2_defs value_script_def)
  have st: "get_agreement_status (scripted value_script) 6 = ''A''"
    by (simp add: toy_defs vbo2_defs value_script_def)
  note t = open_value_not_zero [of "scripted value_script" 5001 60 True False
      "started value_script" value_gate_result "(started value_script)\<lparr>gui := 8\<rparr>" 5 3 0 6]
  have p1: "document_type value_gate_result \<noteq> Some ''memo_request''"
    using t [THEN conjunct1, rule_format] run ov by simp
  have "settle_opened (scripted value_script) 60 3
      = Some (Inr (empty_result\<lparr>open_value := Some 5, open_accruals := Some 0,
                    message := Some ''Could not settle the agreement! Open value is not 0 EUR.'',
                    message_type := Some ''E''\<rparr>),
              go_to_start_window (scripted value_script) 6)"
    using t [THEN conjunct2, rule_format] sv st by simp
  then have p2: "settle_opened (scripted value_script) 60 3 = Some (Inr value_gate_result, 8)"
    by (simp add: toy_defs vbo2_defs)
  show ?thesis
    by (intro conjI) (rule run ov dn mt sv st p1 p2)+
qed

text \<open>
  The claim as stated fails on two paths that report an existing credit memo: an
  agreement that can only be displayed and an agreement with status C both return the
  number of their credit memo although the open value found is 5,00, the first with
  message type W.
\<close>

theorem existing_credit_memo_with_open_value:
  "map_option fst (settle_agreement (scripted display_only_script) 5001 60 True False
                     (started display_only_script))
     = Some (Inr display_only_result)
   \<and> map_option fst (settle_agreement (scripted closed_status_script) 5001 60 True False
                       (started closed_status_script))
     = Some (Inr closed_status_result)
   \<and> open_value display_only_result = Some 5
   \<and> document_number display_only_result = Some 90001234
   \<and> message_type display_only_result = Some ''W''
   \<and> open_value closed_status_result = Some 5
   \<and> document_number closed_status_result = Some 90001234"
proof -
  have "map_option fst (settle_agreement (scripted display_only_script) 5001 60 True False
                     (started display_only_script))
     = Some (Inr display_only_result)"
    by (simp add: toy_defs py_defs vbo2_defs world_defs display_only_script_def)
  moreover have "map_option fst (settle_agreement (scripted closed_status_script) 5001 60
                     True False (started closed_status_script))
     = Some (Inr closed_status_result)"
    by (simp add: toy_defs py_defs vbo2_defs world_defs closed_status_script_def)
  ultimately show ?thesis
    by (simp add: display_only_result_def closed_status_result_def)
qed

subsection \<open>The invariant of the result\<close>

text \<open>
  C3. Every result of \<open>settle_agreement\<close> with document type \<open>memo_request\<close> has message
  type I; no result with message type W or E has document type \<open>memo_request\<close>.
\<close>

theorem memo_request_is_info:
  "settle_agreement E num t a b w = Some (Inr r, w')
   \<longrightarrow> (document_type r = Some ''memo_request'' \<longrightarrow> message_type r = Some ''I'')
       \<and> (message_type r = Some ''W'' \<or> message_type r = Some ''E''
            \<longrightarrow> document_type r \<noteq> Some ''memo_request'')"
proof
  assume "settle_agreement E num t a b w = Some (Inr r, w')"
  from settle_agreement_shape [OF this]
  have "document_type r = Some ''memo_request'' \<longrightarrow> message_type r = Some ''I''"
    using memo_types_differ by auto
  then show "(document_type r = Some ''memo_request'' \<longrightarrow> message_type r = Some ''I'')
       \<and> (message_type r = Some ''W'' \<or> message_type r = Some ''E''
            \<longrightarrow> document_type r \<noteq> Some ''memo_request'')"
    by auto
qed

theorem memo_request_is_info_witness:
  "settle_agreement (scripted settled_script) 5001 60 True False (started settled_script)
     = Some (Inr settled_result, (started settled_script)\<lparr>gui := 17\<rparr>)
   \<and> document_type settled_result = Some ''memo_request''
   \<and> message_type settled_result = Some ''I''
   \<and> settle_agreement (scripted unchecked_script) 5001 (- 5) True False
        (started unchecked_script)
     = Some (Inr threshold_result, (started unchecked_script)\<lparr>gui := 13\<rparr>)
   \<and> message_type threshold_result = Some ''E''
   \<and> document_type threshold_result \<noteq> Some ''memo_request''"
proof -
  have run1: "settle_agreement (scripted settled_script) 5001 60 True False
       (started settled_script)
     = Some (Inr settled_result, (started settled_script)\<lparr>gui := 17\<rparr>)"
    by (simp add: toy_defs py_defs vbo2_defs world_defs settled_script_def)
  have run2: "settle_agreement (scripted unchecked_script) 5001 (- 5) True False
        (started unchecked_script)
     = Some (Inr threshold_result, (started unchecked_script)\<lparr>gui := 13\<rparr>)"
    by (simp add: toy_defs py_defs vbo2_defs world_defs unchecked_script_def)
  have dt: "document_type settled_result = Some ''memo_request''"
    by (simp add: settled_result_def)
  have mt: "message_type threshold_result = Some ''E''"
    by (simp add: threshold_result_def)
  have p1: "message_type settled_result = Some ''I''"
    using memo_request_is_info [rule_format, OF run1, THEN conjunct1] dt by simp
  have p2: "document_type threshold_result \<noteq> Some ''memo_request''"
    using memo_request_is_info [rule_format, OF run2, THEN conjunct2] mt by simp
  show ?thesis
    by (intro conjI) (rule run1 run2 dt mt p1 p2)+
qed

subsection \<open>The threshold\<close>

lemma cap_threshold_idem: "cap_threshold (cap_threshold t) = cap_threshold t"
  by (simp add: cap_threshold_def)

lemma settle_opened_cap: "settle_opened E (cap_threshold t) g = settle_opened E t g"
  by (simp add: settle_opened_def cap_threshold_idem Let_def split: prod.split sum.split)

lemma settle_agreement_cap:
  "settle_agreement E num (cap_threshold t) a b w = settle_agreement E num t a b w"
  by (simp add: settle_agreement_def settle_gui_def settle_opened_cap
      split: prod.split sum.split)

lemma threshold_gate_below:
  assumes "get_sales_volumes E g = (Inr (0, accr), g1)"
    and "get_agreement_status E g1 \<noteq> ''C''" and "get_agreement_status E g1 \<noteq> ''D''"
    and "\<bar>accr\<bar> < max t (1 / 100)"
  shows "settle_opened E t g
     = settle_create E (empty_result\<lparr>open_value := Some 0, open_accruals := Some accr\<rparr>) g1"
proof -
  have "cap_threshold t = max t (1 / 100)"
    by (simp add: cap_threshold_def max.commute)
  then have "\<not> cap_threshold t \<le> \<bar>accr\<bar>"
    using assms(4) by linarith
  then show ?thesis
    using assms(1-3) by (simp add: settle_opened_def Let_def)
qed

lemma threshold_gate_reached:
  assumes "get_sales_volumes E g = (Inr (0, accr), g1)"
    and "get_agreement_status E g1 \<noteq> ''C''" and "get_agreement_status E g1 \<noteq> ''D''"
    and "\<bar>accr\<bar> \<ge> max t (1 / 100)" and "scales_checked E g1 = (Inr False, g2)"
  shows "settle_opened E t g
     = Some (Inr (empty_result\<lparr>open_value := Some 0, open_accruals := Some accr,
                    message := Some (''Could not settle the agreement! The provision ''
                       @ ''open value is under the specified threshold ''
                       @ py_str_float E (max t (1 / 100)) @ '' EUR and scales are unchecked!''),
                    message_type := Some ''E''\<rparr>),
             go_to_start_window E g2)"
proof -
  have c: "cap_threshold t = max t (1 / 100)"
    by (simp add: cap_threshold_def max.commute)
  then have "cap_threshold t \<le> \<bar>accr\<bar>"
    using assms(4) by linarith
  then show ?thesis
    unfolding c [symmetric] using assms(1-3,5) by (simp add: settle_opened_def Let_def)
qed

lemma threshold_gate_checked:
  assumes "get_sales_volumes E g = (Inr (0, accr), g1)"
    and "get_agreement_status E g1 \<noteq> ''C''" and "get_agreement_status E g1 \<noteq> ''D''"
    and "\<bar>accr\<bar> \<ge> max t (1 / 100)" and "scales_checked E g1 = (Inr True, g2)"
  shows "settle_opened E t g
     = settle_create E (empty_result\<lparr>open_value := Some 0, open_accruals := Some accr\<rparr>) g2"
proof -
  have c: "cap_threshold t = max t (1 / 100)"
    by (simp add: cap_threshold_def max.commute)
  then have "cap_threshold t \<le> \<bar>accr\<bar>"
    using assms(4) by linarith
  then show ?thesis
    unfolding c [symmetric] using assms(1-3,5) by (simp add: settle_opened_def Let_def)
qed

lemma settle_agreement_opened:
  assumes "vbo2_sess (vbo2 w) \<noteq> None"
    and "vbo2_find E num a b (gui w) = (Inr r, g0)" and "unpack2 r = Inr (''I'', m)"
  shows "settle_agreement E num t a b w
     = map_option (\<lambda>(r, g'). (r, w\<lparr>gui := g'\<rparr>)) (settle_opened E t g0)"
  using assms by (auto simp: settle_agreement_def settle_gui_def split: option.split)

lemma settle_agreement_floor:
  "settle_agreement E num (max t 0) a b w = settle_agreement E num t a b w"
proof -
  have "cap_threshold (max t 0) = cap_threshold t"
    by (simp add: cap_threshold_def)
  then show ?thesis
    using settle_agreement_cap [of E num "max t 0" a b w] settle_agreement_cap [of E num t a b w]
    by simp
qed

text \<open>
  C2. The threshold \<open>settle_agreement\<close> compares the open accruals with is \<open>max t 0.01\<close>
  for every \<open>t\<close> it is called with. The settlement with \<open>t\<close> is the settlement with
  \<open>max t 0.01\<close>; for \<open>t \<le> 0\<close> it is the settlement with \<open>0.01\<close>; the orchestrator's own
  cap at 0 changes nothing. And once \<open>settle_agreement\<close> has opened the agreement in a
  running session and read an open value of 0 on a status other than C and D, the
  accruals \<open>accr\<close> decide against that value: with \<open>\<bar>accr\<bar> < max t 0.01\<close> the
  settlement is created at once, without a look at the scales; with
  \<open>\<bar>accr\<bar> \<ge> max t 0.01\<close> unchecked scales end the call with an error that names
  \<open>max t 0.01\<close>, and checked scales let the settlement be created.
\<close>

theorem threshold_floor:
  "cap_threshold t = max t (1 / 100)
   \<and> (t \<le> 0 \<longrightarrow> cap_threshold t = 1 / 100)
   \<and> cap_threshold (max t 0) = max t (1 / 100)
   \<and> settle_agreement E num t a b w = settle_agreement E num (max t (1 / 100)) a b w
   \<and> (t \<le> 0 \<longrightarrow> settle_agreement E num t a b w = settle_agreement E num (1 / 100) a b w)
   \<and> settle_agreement E num (max t 0) a b w = settle_agreement E num t a b w
   \<and> (vbo2_sess (vbo2 w) \<noteq> None
       \<and> vbo2_find E num a b (gui w) = (Inr r, g0) \<and> unpack2 r = Inr (''I'', m)
       \<and> get_sales_volumes E g0 = (Inr (0, accr), g1)
       \<and> get_agreement_status E g1 \<noteq> ''C'' \<and> get_agreement_status E g1 \<noteq> ''D''
      \<longrightarrow> (\<bar>accr\<bar> < max t (1 / 100)
            \<longrightarrow> settle_agreement E num t a b w
                = map_option (\<lambda>(res, g'). (res, w\<lparr>gui := g'\<rparr>))
                    (settle_create E
                       (empty_result\<lparr>open_value := Some 0, open_accruals := Some accr\<rparr>) g1))
          \<and> (max t (1 / 100) \<le> \<bar>accr\<bar> \<and> scales_checked E g1 = (Inr False, g2)
            \<longrightarrow> settle_agreement E num t a b w
                = Some (Inr (empty_result\<lparr>open_value := Some 0, open_accruals := Some accr,
                          message := Some (''Could not settle the agreement! The provision ''
                             @ ''open value is under the specified threshold ''
                             @ py_str_float E (max t (1 / 100))
                             @ '' EUR and scales are unchecked!''),
                          message_type := Some ''E''\<rparr>),
                        w\<lparr>gui := go_to_start_window E g2\<rparr>))
          \<and> (max t (1 / 100) \<le> \<bar>accr\<bar> \<and> scales_checked E g1 = (Inr True, g2)
            \<longrightarrow> settle_agreement E num t a b w
                = map_option (\<lambda>(res, g'). (res, w\<lparr>gui := g'\<rparr>))
                    (settle_create E
                       (empty_result\<lparr>open_value := Some 0, open_accruals := Some accr\<rparr>) g2)))"
proof (intro conjI impI)
  show c: "cap_threshold t = max t (1 / 100)"
    by (simp add: cap_threshold_def max.commute)
  show "cap_threshold t = 1 / 100" if "t \<le> 0"
    using that by (simp add: cap_threshold_def)
  show "cap_threshold (max t 0) = max t (1 / 100)"
    by (simp add: cap_threshold_def)
  show m: "settle_agreement E num t a b w = settle_agreement E num (max t (1 / 100)) a b w"
    using settle_agreement_cap [of E num t a b w] c by simp
  show "settle_agreement E num t a b w = settle_agreement E num (1 / 100) a b w" if "t \<le> 0"
  proof -
    have "max t (1 / 100) = 1 / 100"
      using that by simp
    then show ?thesis
      using m by simp
  qed
  show "settle_agreement E num (max t 0) a b w = settle_agreement E num t a b w"
    by (rule settle_agreement_floor)
next
  assume h: "vbo2_sess (vbo2 w) \<noteq> None
       \<and> vbo2_find E num a b (gui w) = (Inr r, g0) \<and> unpack2 r = Inr (''I'', m)
       \<and> get_sales_volumes E g0 = (Inr (0, accr), g1)
       \<and> get_agreement_status E g1 \<noteq> ''C'' \<and> get_agreement_status E g1 \<noteq> ''D''"
    and below: "\<bar>accr\<bar> < max t (1 / 100)"
  from h have opened: "settle_agreement E num t a b w
      = map_option (\<lambda>(res, g'). (res, w\<lparr>gui := g'\<rparr>)) (settle_opened E t g0)"
    using settle_agreement_opened [of w E num a b r g0 m t] by simp
  from h have "settle_opened E t g0
      = settle_create E (empty_result\<lparr>open_value := Some 0, open_accruals := Some accr\<rparr>) g1"
    using threshold_gate_below [of E g0 accr g1 t] below by simp
  with opened show "settle_agreement E num t a b w
      = map_option (\<lambda>(res, g'). (res, w\<lparr>gui := g'\<rparr>))
          (settle_create E
             (empty_result\<lparr>open_value := Some 0, open_accruals := Some accr\<rparr>) g1)"
    by simp
next
  assume h: "vbo2_sess (vbo2 w) \<noteq> None
       \<and> vbo2_find E num a b (gui w) = (Inr r, g0) \<and> unpack2 r = Inr (''I'', m)
       \<and> get_sales_volumes E g0 = (Inr (0, accr), g1)
       \<and> get_agreement_status E g1 \<noteq> ''C'' \<and> get_agreement_status E g1 \<noteq> ''D''"
    and reached: "max t (1 / 100) \<le> \<bar>accr\<bar> \<and> scales_checked E g1 = (Inr False, g2)"
  from h have opened: "settle_agreement E num t a b w
      = map_option (\<lambda>(res, g'). (res, w\<lparr>gui := g'\<rparr>)) (settle_opened E t g0)"
    using settle_agreement_opened [of w E num a b r g0 m t] by simp
  from h reached have "settle_opened E t g0
      = Some (Inr (empty_result\<lparr>open_value := Some 0, open_accruals := Some accr,
                    message := Some (''Could not settle the agreement! The provision ''
                       @ ''open value is under the specified threshold ''
                       @ py_str_float E (max t (1 / 100)) @ '' EUR and scales are unchecked!''),
                    message_type := Some ''E''\<rparr>),
              go_to_start_window E g2)"
    using threshold_gate_reached [of E g0 accr g1 t g2] by simp
  with opened show "settle_agreement E num t a b w
      = Some (Inr (empty_result\<lparr>open_value := Some 0, open_accruals := Some accr,
                    message := Some (''Could not settle the agreement! The provision ''
                       @ ''open value is under the specified threshold ''
                       @ py_str_float E (max t (1 / 100))
                       @ '' EUR and scales are unchecked!''),
                    message_type := Some ''E''\<rparr>),
              w\<lparr>gui := go_to_start_window E g2\<rparr>)"
    by simp
next
  assume h: "vbo2_sess (vbo2 w) \<noteq> None
       \<and> vbo2_find E num a b (gui w) = (Inr r, g0) \<and> unpack2 r = Inr (''I'', m)
       \<and> get_sales_volumes E g0 = (Inr (0, accr), g1)
       \<and> get_agreement_status E g1 \<noteq> ''C'' \<and> get_agreement_status E g1 \<noteq> ''D''"
    and reached: "max t (1 / 100) \<le> \<bar>accr\<bar> \<and> scales_checked E g1 = (Inr True, g2)"
  from h have opened: "settle_agreement E num t a b w
      = map_option (\<lambda>(res, g'). (res, w\<lparr>gui := g'\<rparr>)) (settle_opened E t g0)"
    using settle_agreement_opened [of w E num a b r g0 m t] by simp
  from h reached have "settle_opened E t g0
      = settle_create E (empty_result\<lparr>open_value := Some 0, open_accruals := Some accr\<rparr>) g2"
    using threshold_gate_checked [of E g0 accr g1 t g2] by simp
  with opened show "settle_agreement E num t a b w
      = map_option (\<lambda>(res, g'). (res, w\<lparr>gui := g'\<rparr>))
          (settle_create E
             (empty_result\<lparr>open_value := Some 0, open_accruals := Some accr\<rparr>) g2)"
    by simp
qed

theorem threshold_floor_witness:
  "(- 5 :: real) \<le> 0
   \<and> cap_threshold (- 5) = 1 / 100
   \<and> settle_agreement (scripted zero_accruals_script) 5001 (- 5) True False
        (started zero_accruals_script)
     = settle_agreement (scripted zero_accruals_script) 5001 (1 / 100) True False
        (started zero_accruals_script)
   \<and> vbo2_sess (vbo2 (started zero_accruals_script)) = Some 1
   \<and> vbo2_find (scripted zero_accruals_script) 5001 True False
        (gui (started zero_accruals_script))
     = (Inr (FPair ''I'' ''Agreement found and opened.''), 3)
   \<and> unpack2 (FPair ''I'' ''Agreement found and opened.'')
     = Inr (''I'', ''Agreement found and opened.'')
   \<and> get_sales_volumes (scripted zero_accruals_script) 3 = (Inr (0, 0), 6)
   \<and> get_agreement_status (scripted zero_accruals_script) 6 = ''A''
   \<and> \<bar>0 :: real\<bar> < max (- 5) (1 / 100)
   \<and> settle_agreement (scripted zero_accruals_script) 5001 (- 5) True False
        (started zero_accruals_script)
     = Some (Inr zero_accruals_result, (started zero_accruals_script)\<lparr>gui := 17\<rparr>)
   \<and> vbo2_sess (vbo2 (started unchecked_script)) = Some 1
   \<and> vbo2_find (scripted unchecked_script) 5001 True False (gui (started unchecked_script))
     = (Inr (FPair ''I'' ''Agreement found and opened.''), 3)
   \<and> get_sales_volumes (scripted unchecked_script) 3 = (Inr (0, 51 / 2), 6)
   \<and> get_agreement_status (scripted unchecked_script) 6 = ''A''
   \<and> max (- 5) (1 / 100) \<le> \<bar>51 / 2 :: real\<bar>
   \<and> scales_checked (scripted unchecked_script) 6 = (Inr False, 11)
   \<and> settle_agreement (scripted unchecked_script) 5001 (- 5) True False
        (started unchecked_script)
     = Some (Inr threshold_result, (started unchecked_script)\<lparr>gui := 13\<rparr>)
   \<and> vbo2_sess (vbo2 (started checked_script)) = Some 1
   \<and> vbo2_find (scripted checked_script) 5001 True False (gui (started checked_script))
     = (Inr (FPair ''I'' ''Agreement found and opened.''), 3)
   \<and> get_sales_volumes (scripted checked_script) 3 = (Inr (0, 51 / 2), 6)
   \<and> get_agreement_status (scripted checked_script) 6 = ''A''
   \<and> max 10 (1 / 100) \<le> \<bar>51 / 2 :: real\<bar>
   \<and> scales_checked (scripted checked_script) 6 = (Inr True, 11)
   \<and> settle_agreement (scripted checked_script) 5001 10 True False (started checked_script)
     = Some (Inr settled_result, (started checked_script)\<lparr>gui := 22\<rparr>)"
proof -
  let ?m = "''Agreement found and opened.''"
  have neg: "(- 5 :: real) \<le> 0" by simp
  note tz = threshold_floor [of "- 5" "scripted zero_accruals_script" 5001 True False
      "started zero_accruals_script" "FPair ''I'' ?m" 3 ?m 0 6 11]
  note tu = threshold_floor [of "- 5" "scripted unchecked_script" 5001 True False
      "started unchecked_script" "FPair ''I'' ?m" 3 ?m "51 / 2" 6 11]
  note tc = threshold_floor [of 10 "scripted checked_script" 5001 True False
      "started checked_script" "FPair ''I'' ?m" 3 ?m "51 / 2" 6 11]
  note gate = conjunct2 [THEN conjunct2, THEN conjunct2, THEN conjunct2, THEN conjunct2,
      THEN conjunct2]
  have cap: "cap_threshold (- 5) = 1 / 100"
    using tz [THEN conjunct2, THEN conjunct1, rule_format, OF neg] .
  have same: "settle_agreement (scripted zero_accruals_script) 5001 (- 5) True False
        (started zero_accruals_script)
     = settle_agreement (scripted zero_accruals_script) 5001 (1 / 100) True False
        (started zero_accruals_script)"
    using tz [THEN conjunct2, THEN conjunct2, THEN conjunct2, THEN conjunct2, THEN conjunct1,
        rule_format, OF neg] .
  have un: "unpack2 (FPair ''I'' ?m) = Inr (''I'', ?m)"
    by (simp add: unpack2_def)
  have sz: "vbo2_sess (vbo2 (started zero_accruals_script)) = Some 1"
    by (simp add: toy_defs world_defs)
  have fz: "vbo2_find (scripted zero_accruals_script) 5001 True False
        (gui (started zero_accruals_script)) = (Inr (FPair ''I'' ?m), 3)"
    by (simp add: toy_defs py_defs vbo2_defs world_defs zero_accruals_script_def)
  have vz: "get_sales_volumes (scripted zero_accruals_script) 3 = (Inr (0, 0), 6)"
    by (simp add: toy_defs py_defs vbo2_defs zero_accruals_script_def)
  have az: "get_agreement_status (scripted zero_accruals_script) 6 = ''A''"
    by (simp add: toy_defs vbo2_defs zero_accruals_script_def)
  have lz: "\<bar>0 :: real\<bar> < max (- 5) (1 / 100)"
    by simp
  have "settle_agreement (scripted zero_accruals_script) 5001 (- 5) True False
        (started zero_accruals_script)
     = map_option (\<lambda>(res, g'). (res, (started zero_accruals_script)\<lparr>gui := g'\<rparr>))
         (settle_create (scripted zero_accruals_script)
            (empty_result\<lparr>open_value := Some 0, open_accruals := Some 0\<rparr>) 6)"
    using tz [THEN gate, rule_format, THEN conjunct1, rule_format] sz fz un vz az lz by simp
  then have rz: "settle_agreement (scripted zero_accruals_script) 5001 (- 5) True False
        (started zero_accruals_script)
     = Some (Inr zero_accruals_result, (started zero_accruals_script)\<lparr>gui := 17\<rparr>)"
    by (simp add: toy_defs py_defs vbo2_defs zero_accruals_script_def)
  have su: "vbo2_sess (vbo2 (started unchecked_script)) = Some 1"
    by (simp add: toy_defs world_defs)
  have fu: "vbo2_find (scripted unchecked_script) 5001 True False
        (gui (started unchecked_script)) = (Inr (FPair ''I'' ?m), 3)"
    by (simp add: toy_defs py_defs vbo2_defs world_defs unchecked_script_def)
  have vu: "get_sales_volumes (scripted unchecked_script) 3 = (Inr (0, 51 / 2), 6)"
    by (simp add: toy_defs py_defs vbo2_defs unchecked_script_def)
  have au: "get_agreement_status (scripted unchecked_script) 6 = ''A''"
    by (simp add: toy_defs vbo2_defs unchecked_script_def)
  have lu: "max (- 5) (1 / 100) \<le> \<bar>51 / 2 :: real\<bar>"
    by simp
  have cu: "scales_checked (scripted unchecked_script) 6 = (Inr False, 11)"
    by (simp add: toy_defs py_defs vbo2_defs unchecked_script_def)
  have "settle_agreement (scripted unchecked_script) 5001 (- 5) True False
        (started unchecked_script)
     = Some (Inr (empty_result\<lparr>open_value := Some 0, open_accruals := Some (51 / 2),
                    message := Some (''Could not settle the agreement! The provision ''
                       @ ''open value is under the specified threshold ''
                       @ py_str_float (scripted unchecked_script) (max (- 5) (1 / 100))
                       @ '' EUR and scales are unchecked!''),
                    message_type := Some ''E''\<rparr>),
             (started unchecked_script)\<lparr>gui := go_to_start_window (scripted unchecked_script) 11\<rparr>)"
    using tu [THEN gate, rule_format, THEN conjunct2, THEN conjunct1, rule_format]
      su fu un vu au lu cu by simp
  then have ru: "settle_agreement (scripted unchecked_script) 5001 (- 5) True False
        (started unchecked_script)
     = Some (Inr threshold_result, (started unchecked_script)\<lparr>gui := 13\<rparr>)"
    by (simp add: toy_defs py_defs vbo2_defs)
  have sc: "vbo2_sess (vbo2 (started checked_script)) = Some 1"
    by (simp add: toy_defs world_defs)
  have fc: "vbo2_find (scripted checked_script) 5001 True False
        (gui (started checked_script)) = (Inr (FPair ''I'' ?m), 3)"
    by (simp add: toy_defs py_defs vbo2_defs world_defs checked_script_def)
  have vc: "get_sales_volumes (scripted checked_script) 3 = (Inr (0, 51 / 2), 6)"
    by (simp add: toy_defs py_defs vbo2_defs checked_script_def)
  have ac: "get_agreement_status (scripted checked_script) 6 = ''A''"
    by (simp add: toy_defs vbo2_defs checked_script_def)
  have lc: "max 10 (1 / 100) \<le> \<bar>51 / 2 :: real\<bar>"
    by simp
  have cc: "scales_checked (scripted checked_script) 6 = (Inr True, 11)"
    by (simp add: toy_defs py_defs vbo2_defs checked_script_def checked_conditions_screen_def)
  have "settle_agreement (scripted checked_script) 5001 10 True False (started checked_script)
     = map_option (\<lambda>(res, g'). (res, (started checked_script)\<lparr>gui := g'\<rparr>))
         (settle_create (scripted checked_script)
            (empty_result\<lparr>open_value := Some 0, open_accruals := Some (51 / 2)\<rparr>) 11)"
    using tc [THEN gate, rule_format, THEN conjunct2, THEN conjunct2, rule_format]
      sc fc un vc ac lc cc by simp
  then have rc: "settle_agreement (scripted checked_script) 5001 10 True False
        (started checked_script)
     = Some (Inr settled_result, (started checked_script)\<lparr>gui := 22\<rparr>)"
    by (simp add: toy_defs py_defs vbo2_defs checked_script_def)
  show ?thesis
    by (intro conjI)
      (rule neg cap same sz fz un vz az lz rz su fu vu au lu cu ru sc fc vc ac lc cc rc)+
qed

section \<open>The orchestrator's loop\<close>

subsection \<open>What leaves the data directory alone\<close>

lemma data_files_log_msg [simp]: "data_files (log_msg lvl m w) = data_files w"
  by (simp add: log_msg_def)

lemma data_files_vbo2_start: "data_files (snd (vbo2_start E h w)) = data_files w"
  by (simp add: vbo2_start_def Let_def split: option.splits)

lemma data_files_vbo2_close [simp]: "data_files (vbo2_close E w) = data_files w"
  by (simp add: vbo2_close_def Let_def)

lemma data_files_va02_start: "data_files (snd (va02_start E h w)) = data_files w"
  by (simp add: va02_start_def split: option.splits)

lemma data_files_va02_close [simp]: "data_files (va02_close E w) = data_files w"
  by (simp add: va02_close_def Let_def)

lemma data_files_log_result [simp]: "data_files (log_result r w) = data_files w"
  by (simp add: log_result_def)

lemma data_files_settle_agreement:
  "settle_agreement E num t a b w = Some (r, w') \<Longrightarrow> data_files w' = data_files w"
  by (auto simp: settle_agreement_def split: if_splits option.splits prod.splits)

lemma data_files_settle_item:
  assumes "settle_item E h t num w = Some (r, w')"
  shows "data_files w' = data_files w"
proof (cases "vbo2_start E h w")
  case (Pair x w1)
  have w1: "data_files w1 = data_files w"
    using data_files_vbo2_start [of E h w] Pair by simp
  show ?thesis
  proof (cases x)
    case (Inl e)
    then show ?thesis using assms Pair w1 by (simp add: settle_item_def)
  next
    case (Inr u)
    then have "settle_agreement E num t True False w1 = Some (r, w')"
      using assms Pair by (simp add: settle_item_def)
    then show ?thesis using data_files_settle_agreement w1 by metis
  qed
qed

lemma data_files_change_sales_order:
  "change_sales_order E num p ap att w = Some (r, w') \<Longrightarrow> data_files w' = data_files w"
  by (auto simp: change_sales_order_def split: if_splits option.splits prod.splits sum.splits)

lemma va02_start_some: "fst (va02_start E (Some s) w) = Inr ()"
  by (simp add: va02_start_def)

subsection \<open>A failed amendment\<close>

lemma amend_order_caught:
  assumes "change_sales_order E n (Some False) (Some approvers) (Some att_path)
             (log_msg INFO ''Updating order parameters ...'' w) = Some (Inl exc, w2)"
    and "idx < length output" and "out_message (output ! idx) = Some m"
  shows "amend_order E idx n approvers att_path (output, w)
     = Some (Inr (output[idx := (output ! idx)\<lparr>out_message :=
                     Some (m @ ''Error changing the sales order! '' @ str_exn exc)\<rparr>]),
             log_msg INFO ''VA02 closed.''
               (va02_close E (log_msg INFO ''Closing VA02 ...''
                  (log_msg ERROR (str_exn exc) w2))))"
  using assms by (simp add: amend_order_def Let_def)

text \<open>
  C4. In a turn of the orchestrator's loop where the settlement has produced a credit
  memo request with a document number, an exception of \<open>change_sales_order\<close> does not
  leave the turn: its text is appended to the row's message, the amendment session is
  closed, the number is appended to the run's batch file, and the loop goes on with the
  remaining rows.
\<close>

theorem amendment_failure_is_caught:
  assumes settled: "settle_item E (Some s) thresh agt_num
        (log_msg INFO (''--------- Agreement '' @ str_int agt_num @ '' (''
           @ str_nat (idx + 1) @ '' of '' @ str_nat n_items @ '') ---------'') w)
      = Some (Inr r, w1)"
    and number: "document_number r = Some n"
    and request: "document_type r \<noteq> Some ''credit_memo''"
    and msg: "message r = Some m"
    and idx: "idx < length output"
    and failed: "change_sales_order E n (Some False) (Some approvers) (Some att_path)
        (log_msg INFO ''Updating order parameters ...''
          (log_msg INFO ''VA02 running.''
            (snd (va02_start E (Some s)
               (log_msg INFO ''Starting VA02 ...'' (vbo2_close E (log_result r w1)))))))
      = Some (Inl exc, w2)"
    and batch: "map_of (data_files w) (compile_batch_path batch_idx) = Some b"
  shows "\<exists>output' w'.
      process_item E (Some s) thresh approvers att_path batch_idx n_items idx agt_num (output, w)
        = Some (Inr output', w')
      \<and> out_message (output' ! idx)
          = Some (m @ ''Error changing the sales order! '' @ str_exn exc)
      \<and> out_credit_memo (output' ! idx) = Some n
      \<and> va02_sess (va02 w') = None
      \<and> map_of (data_files w') (compile_batch_path batch_idx)
          = Some (b\<lparr>credit_memos := credit_memos b @ [n]\<rparr>)
      \<and> process_rows E (Some s) thresh approvers att_path batch_idx n_items idx
            (agt_num # rest) (output, w)
          = process_rows E (Some s) thresh approvers att_path batch_idx n_items (idx + 1)
              rest (output', w')"
proof -
  let ?w0 = "log_msg INFO (''--------- Agreement '' @ str_int agt_num @ '' (''
           @ str_nat (idx + 1) @ '' of '' @ str_nat n_items @ '') ---------'') w"
  let ?o1 = "record_result idx r output"
  let ?wa = "log_msg INFO ''Starting VA02 ...'' (vbo2_close E (log_result r w1))"
  obtain wv where start: "va02_start E (Some s) ?wa = (Inr (), wv)"
    using va02_start_some [of E s ?wa] by (cases "va02_start E (Some s) ?wa") simp
  then have wv: "snd (va02_start E (Some s) ?wa) = wv" by simp
  let ?wb = "log_msg INFO ''VA02 running.'' wv"
  let ?o2 = "?o1[idx := (?o1 ! idx)\<lparr>out_message :=
               Some (m @ ''Error changing the sales order! '' @ str_exn exc)\<rparr>]"
  let ?w3 = "log_msg INFO ''VA02 closed.''
               (va02_close E (log_msg INFO ''Closing VA02 ...''
                  (log_msg ERROR (str_exn exc) w2)))"
  let ?w4 = "log_msg INFO ''Updating the data batch on the credit memo ...'' ?w3"
  let ?d = "AList.update (compile_batch_path batch_idx)
              (b\<lparr>credit_memos := credit_memos b @ [n]\<rparr>) (data_files w)"
  let ?w5 = "log_msg INFO ''Data batch successfully updated.'' (?w4\<lparr>data_files := ?d\<rparr>)"
  let ?w' = "log_msg INFO (''Agreement processed.'' @ [CHR 0x0A]) ?w5"
  have o1: "idx < length ?o1" "out_message (?o1 ! idx) = Some m"
    "out_credit_memo (?o1 ! idx) = Some n"
    using idx msg number by (simp_all add: record_result_def)
  have amend: "amend_order E idx n approvers att_path (?o1, ?wb) = Some (Inr ?o2, ?w3)"
    by (rule amend_order_caught [OF failed [unfolded wv] o1(1,2)])
  have d1: "data_files w1 = data_files w"
    using data_files_settle_item [OF settled] by simp
  have d2: "data_files w2 = data_files w"
    using data_files_change_sales_order [OF failed] data_files_va02_start [of E "Some s" ?wa] d1
    by simp
  have upd: "update_batch_data batch_idx n (data_files ?w4) = Inr ?d"
    using batch d2 by (simp add: update_batch_data_def)
  have am: "item_amend E (Some s) approvers att_path batch_idx idx n (?o1, log_result r w1)
      = Some (Inr ?o2, ?w5)"
    unfolding item_amend_def using start amend upd by (simp add: Let_def)
  have body: "item_body E (Some s) thresh approvers att_path batch_idx idx agt_num (output, ?w0)
      = Some (Inr ?o2, ?w5)"
    unfolding item_body_def using settled number request am by (simp add: Let_def)
  have item: "process_item E (Some s) thresh approvers att_path batch_idx n_items idx agt_num
        (output, w) = Some (Inr ?o2, ?w')"
    unfolding process_item_def using body by (simp add: Let_def)
  have closed: "va02_sess (va02 ?w') = None"
    by (simp add: log_msg_def va02_close_def Let_def)
  have files: "map_of (data_files ?w') (compile_batch_path batch_idx)
      = Some (b\<lparr>credit_memos := credit_memos b @ [n]\<rparr>)"
    by (simp add: log_msg_def update_conv')
  have rows: "process_rows E (Some s) thresh approvers att_path batch_idx n_items idx
            (agt_num # rest) (output, w)
          = process_rows E (Some s) thresh approvers att_path batch_idx n_items (idx + 1)
              rest (?o2, ?w')"
    using item by simp
  have m2: "out_message (?o2 ! idx)
          = Some (m @ ''Error changing the sales order! '' @ str_exn exc)"
    "out_credit_memo (?o2 ! idx) = Some n"
    using o1 by simp_all
  show ?thesis
    using item m2 closed files rows by blast
qed

theorem amendment_failure_is_caught_witness:
  "\<exists>output' w'.
      process_item (scripted unauthorized_script) (Some 1) 60 example_approvers
        example_att_path 1 1 0 5001 ([new_row 5001], init_world 0 one_batch_dir)
        = Some (Inr output', w')
      \<and> out_message (output' ! 0)
          = Some (''Agreement successfully settled.'' @ ''Error changing the sales order! ''
                  @ ''No authorization for maintaining order 123456789'')
      \<and> out_credit_memo (output' ! 0) = Some 123456789
      \<and> va02_sess (va02 w') = None
      \<and> map_of (data_files w') (compile_batch_path 1)
          = Some \<lparr>country = ''Austria'', company_code = ''1001'',
                  credit_memos = [777, 123456789]\<rparr>"
proof -
  let ?E = "scripted unauthorized_script"
  let ?w0 = "log_msg INFO (''--------- Agreement '' @ str_int 5001 @ '' (''
               @ str_nat (0 + 1) @ '' of '' @ str_nat 1 @ '') ---------'')
               (init_world 0 one_batch_dir)"
  let ?w1 = "(snd (vbo2_start ?E (Some 1) ?w0))\<lparr>gui := 17\<rparr>"
  let ?wc = "log_msg INFO ''Updating order parameters ...''
          (log_msg INFO ''VA02 running.''
            (snd (va02_start ?E (Some 1)
               (log_msg INFO ''Starting VA02 ...''
                  (vbo2_close ?E (log_result settled_result ?w1))))))"
  let ?b = "\<lparr>country = ''Austria'', company_code = ''1001'', credit_memos = [777]\<rparr>"
  have settled: "settle_item ?E (Some 1) 60 5001 ?w0 = Some (Inr settled_result, ?w1)"
    by (simp add: toy_defs py_defs vbo2_defs world_defs controller_defs
        unauthorized_script_def settled_script_def)
  have number: "document_number settled_result = Some 123456789"
    and request: "document_type settled_result \<noteq> Some ''credit_memo''"
    and msg: "message settled_result = Some ''Agreement successfully settled.''"
    by (simp_all add: settled_result_def)
  have idx: "0 < length [new_row 5001]" by simp
  have failed: "change_sales_order ?E 123456789 (Some False) (Some example_approvers)
        (Some example_att_path) ?wc
      = Some (Inl (AuthorizationMissingError
                     ''No authorization for maintaining order 123456789''),
              ?wc\<lparr>gui := 22\<rparr>)"
    by (simp add: toy_defs py_defs vbo2_defs va02_defs world_defs controller_defs
        unauthorized_script_def settled_script_def)
  have batch: "map_of (data_files (init_world (0::nat) one_batch_dir)) (compile_batch_path 1)
      = Some ?b"
    by (simp add: toy_defs py_defs controller_defs)
  from amendment_failure_is_caught [OF settled number request msg idx failed batch, of "[]"]
  obtain output' w' where
    "process_item ?E (Some 1) 60 example_approvers example_att_path 1 1 0 5001
        ([new_row 5001], init_world 0 one_batch_dir) = Some (Inr output', w')"
    "out_message (output' ! 0)
       = Some (''Agreement successfully settled.'' @ ''Error changing the sales order! ''
               @ str_exn (AuthorizationMissingError
                           ''No authorization for maintaining order 123456789''))"
    "out_credit_memo (output' ! 0) = Some 123456789"
    "va02_sess (va02 w') = None"
    "map_of (data_files w') (compile_batch_path 1)
       = Some (?b\<lparr>credit_memos := credit_memos ?b @ [123456789]\<rparr>)"
    by blast
  then show ?thesis
    by (intro exI [of _ output'] exI [of _ w']) simp
qed

subsection \<open>Outdated sales volumes\<close>

text \<open>
  C10, the code at the failing input. The orchestrator settles the agreements 5001 and
  5002; for 5001 the system shows the dialog that the sales volumes are not current.
  \<open>vbo2_find\<close> then reads the dialog text after it has confirmed the dialog and gone
  back to the start window: the assertion of \<open>get_dialog_text\<close> fails when the dialog
  is gone, and the bare string it returns otherwise does not unpack into a pair. Either
  way the exception ends the whole run with \<open>RuntimeError\<close>; agreement 5002 is never
  reached.
\<close>

theorem not_current_dialog_aborts_run:
  "vbo2_find (scripted not_current_script) 5001 True False 1 = (Inl (AssertionError []), 6)
   \<and> map_option fst (process_agreements (scripted not_current_script) (Some 1) example_rules
        [5001, 5002] example_att_path ''1001'' (init_world 0 []))
     = Some (Inl (RuntimeError ''Unhandled exception: ''))
   \<and> vbo2_find (scripted not_current_stays_script) 5001 True False 1
     = (Inr (FStr ''The sales volume for agreement 5001 is not current.''), 6)
   \<and> map_option fst (process_agreements (scripted not_current_stays_script) (Some 1)
        example_rules [5001, 5002] example_att_path ''1001'' (init_world 0 []))
     = Some (Inl (RuntimeError
                    ''Unhandled exception: too many values to unpack (expected 2)''))"
proof (intro conjI)
  show "vbo2_find (scripted not_current_script) 5001 True False 1
      = (Inl (AssertionError []), 6)"
    by (simp add: toy_defs py_defs vbo2_defs not_current_script_def)
  show "map_option fst (process_agreements (scripted not_current_script) (Some 1)
        example_rules [5001, 5002] example_att_path ''1001'' (init_world 0 []))
     = Some (Inl (RuntimeError ''Unhandled exception: ''))"
    by (simp add: toy_defs py_defs vbo2_defs world_defs controller_defs
        not_current_script_def)
  show "vbo2_find (scripted not_current_stays_script) 5001 True False 1
     = (Inr (FStr ''The sales volume for agreement 5001 is not current.''), 6)"
    by (simp add: toy_defs py_defs vbo2_defs not_current_stays_script_def)
  show "map_option fst (process_agreements (scripted not_current_stays_script) (Some 1)
        example_rules [5001, 5002] example_att_path ''1001'' (init_world 0 []))
     = Some (Inl (RuntimeError
                    ''Unhandled exception: too many values to unpack (expected 2)''))"
    by (simp add: toy_defs py_defs vbo2_defs world_defs controller_defs
        not_current_stays_script_def)
qed

section \<open>The finalization runner\<close>


subsection \<open>A key that no row matches\<close>













end
